theory Spec2Isabelle
  imports
    Complex_Main
    "HOL-Library.Multiset"
    "HOL-Library.Sublist"
    "HOL-Library.Char_ord"
    "HOL-Library.List_Lexorder"
begin

section \<open>Data model\<close>

text \<open>
  The notebook \<^verbatim>\<open>XGBoost_LightGBM.ipynb\<close> is a linear script over one pandas
  DataFrame \<^verbatim>\<open>data\<close>. A cell of the frame is a missing value, a number or a
  string. Numbers are modelled as exact reals: every finite float is one, and the
  script only compares them, sorts them and counts with them.
\<close>

datatype cell = NaN | is_Num: Num (num_of: real) | is_Str: Str (str_of: string)

text \<open>
  Python exceptions the script can meet, as values. \<^verbatim>\<open>ValueError\<close> carries the
  library's message (shortened to its first sentence), which tells the different causes
  apart.
\<close>

datatype error = KeyError string | IndexError | TypeError | ValueError string

text \<open>
  A row is its index label (the row identity pandas keeps through \<^verbatim>\<open>sample\<close>,
  \<^verbatim>\<open>dropna\<close> and the split) and its named fields; a frame is the list of column
  names and the rows in order.
\<close>

type_synonym row = "nat \<times> (string \<Rightarrow> cell)"

record dataframe =
  columns :: "string list"
  rows :: "row list"

text \<open>\<^verbatim>\<open>data[name]\<close>: the column as a vector, \<^verbatim>\<open>KeyError\<close> for an unknown name.\<close>

definition get_column :: "string \<Rightarrow> dataframe \<Rightarrow> error + cell list" where
  "get_column name df =
     (if name \<in> set (columns df) then Inr (map (\<lambda>r. snd r name) (rows df))
      else Inl (KeyError name))"

text \<open>
  \<^verbatim>\<open>data[name] = vals\<close> where \<^verbatim>\<open>vals\<close> was computed from the frame's own column
  (so the two are aligned row by row); a new name is appended to the columns.
\<close>

definition set_column :: "string \<Rightarrow> cell list \<Rightarrow> dataframe \<Rightarrow> dataframe" where
  "set_column name vals df =
     df\<lparr>columns := (if name \<in> set (columns df) then columns df else columns df @ [name]),
        rows := map (\<lambda>(r, v). (fst r, (snd r)(name := v))) (zip (rows df) vals)\<rparr>"

text \<open>Running a fallible function over a vector stops at the first exception.\<close>

fun traverse :: "('a \<Rightarrow> error + 'b) \<Rightarrow> 'a list \<Rightarrow> error + 'b list" where
  "traverse f [] = Inr []"
| "traverse f (x # xs) =
     (case f x of
        Inl e \<Rightarrow> Inl e
      | Inr y \<Rightarrow> (case traverse f xs of Inl e \<Rightarrow> Inl e | Inr ys \<Rightarrow> Inr (y # ys)))"

text \<open>Sequencing of fallible steps: the first exception ends the run.\<close>

definition and_then :: "error + 'a \<Rightarrow> ('a \<Rightarrow> error + 'b) \<Rightarrow> error + 'b" where
  "and_then r f = (case r of Inl e \<Rightarrow> Inl e | Inr x \<Rightarrow> f x)"

text \<open>
  Positional selection (\<^verbatim>\<open>take\<close>, \<^verbatim>\<open>iloc\<close>, scikit-learn's \<^verbatim>\<open>safe_indexing\<close>):
  a position past the end raises \<^verbatim>\<open>IndexError\<close>.
\<close>

definition safe_indexing :: "'a list \<Rightarrow> nat list \<Rightarrow> error + 'a list" where
  "safe_indexing xs ind = traverse (\<lambda>i. if i < length xs then Inr (xs ! i) else Inl IndexError) ind"

text \<open>
  The pseudo-random generator is not modelled. \<^verbatim>\<open>RandomState(seed).permutation(n)\<close>
  of a freshly seeded generator is a function of the seed and of \<open>n\<close>; it is a parameter
  of every operation that draws from it, and the theorems assume of it only that it
  returns a permutation of \<open>0, ..., n - 1\<close>.
\<close>

type_synonym rng = "nat \<Rightarrow> nat \<Rightarrow> nat list"

section \<open>Sampler\<close>

text \<open>
  Python 3's \<^verbatim>\<open>round(x)\<close> of a float: the nearest integer, a half going to the even
  neighbour.
\<close>

definition py_round :: "real \<Rightarrow> int" where
  "py_round x =
     (let f = \<lfloor>x\<rfloor>; d = x - of_int f
      in if d < 1 / 2 then f else if 1 / 2 < d then f + 1 else if even f then f else f + 1)"

text \<open>
  The product of two floats (IEEE 754 binary64, round to nearest, ties to even): the exact
  product rounded to the nearest number with a significand of 53 bits. \<open>e\<close> is the
  exponent of the exact value and \<open>ulp\<close> the spacing of the floats at that exponent.
  Overflow and subnormal results are not modelled: the products below are at most the
  row count, and a product small enough to be subnormal rounds to zero rows either way.
\<close>

definition float64_round :: "real \<Rightarrow> real" where
  "float64_round x =
     (if x = 0 then 0
      else (let e = \<lfloor>log 2 \<bar>x\<bar>\<rfloor>; ulp = 2 powi (e - 52)
            in of_int (py_round (x / ulp)) * ulp))"

definition float64_mul :: "real \<Rightarrow> real \<Rightarrow> real" where
  "float64_mul a b = float64_round (a * b)"

text \<open>
  \<^verbatim>\<open>data.sample(frac = 0.1, random_state=10)\<close>. pandas computes
  \<^verbatim>\<open>n = int(round(frac * axis_length))\<close>, refuses a negative \<open>n\<close>, and takes the rows at
  \<^verbatim>\<open>rs.choice(axis_length, size=n, replace=False)\<close>, which is the first \<open>n\<close> entries of
  \<^verbatim>\<open>rs.permutation(axis_length)\<close> and raises when \<open>n\<close> exceeds the population.
  The product \<^verbatim>\<open>frac * axis_length\<close> is a floating-point product; it is the parameter
  \<open>float_mul\<close>, which is \<open>float64_mul\<close> when the script runs.
\<close>

definition sample :: "rng \<Rightarrow> (real \<Rightarrow> real \<Rightarrow> real) \<Rightarrow> real \<Rightarrow> nat \<Rightarrow> dataframe \<Rightarrow> error + dataframe" where
  "sample permutation float_mul frac' random_state df =
     (let axis_length = length (rows df);
          n = py_round (float_mul frac' (real axis_length))
      in if n < 0 then Inl (ValueError ''A negative number of rows requested. Please provide positive value.'')
         else if axis_length < nat n
           then Inl (ValueError ''Cannot take a larger sample than population when replace=False'')
         else and_then (safe_indexing (rows df) (take (nat n) (permutation random_state axis_length)))
                (\<lambda>taken. Inr (df\<lparr>rows := taken\<rparr>)))"

section \<open>Column selection\<close>

text \<open>
  \<^verbatim>\<open>data[[...]]\<close> keeps the named columns, in the order given, and raises
  \<^verbatim>\<open>KeyError\<close> for a name the frame does not have. \<^verbatim>\<open>data.drop([name], axis=1)\<close>
  removes one column. A field outside the frame's columns reads as missing.
\<close>

definition restrict_row :: "string list \<Rightarrow> row \<Rightarrow> row" where
  "restrict_row names r = (fst r, (\<lambda>c. if c \<in> set names then snd r c else NaN))"

definition select_columns :: "string list \<Rightarrow> dataframe \<Rightarrow> error + dataframe" where
  "select_columns names df =
     (case filter (\<lambda>c. c \<notin> set (columns df)) names of
        [] \<Rightarrow> Inr \<lparr>columns = names, rows = map (restrict_row names) (rows df)\<rparr>
      | c # _ \<Rightarrow> Inl (KeyError c))"

definition drop_column :: "string \<Rightarrow> dataframe \<Rightarrow> error + dataframe" where
  "drop_column name df =
     (if name \<in> set (columns df)
      then (let names = filter (\<lambda>c. c \<noteq> name) (columns df)
            in Inr \<lparr>columns = names, rows = map (restrict_row names) (rows df)\<rparr>)
      else Inl (KeyError name))"

section \<open>Cleaner\<close>

text \<open>\<^verbatim>\<open>data.dropna(inplace=True)\<close>: a row stays when none of its fields is missing.\<close>

definition dropna :: "dataframe \<Rightarrow> dataframe" where
  "dropna df = df\<lparr>rows := filter (\<lambda>r. list_all (\<lambda>c. snd r c \<noteq> NaN) (columns df)) (rows df)\<rparr>"

section \<open>Labeler\<close>

text \<open>
  \<^verbatim>\<open>data["ARRIVAL_DELAY"] = (data["ARRIVAL_DELAY"]>10)*1\<close>.
  The comparison is elementwise: a number is compared with 10, a missing value compares
  false, and a string against an integer raises \<^verbatim>\<open>TypeError\<close>. Multiplying the
  boolean by 1 gives the integer 0 or 1.
\<close>

fun gt :: "cell \<Rightarrow> real \<Rightarrow> error + bool" where
  "gt (Num x) t = Inr (t < x)"
| "gt NaN t = Inr False"
| "gt (Str s) t = Inl TypeError"

definition binarize :: "cell \<Rightarrow> error + cell" where
  "binarize c = (case gt c 10 of Inl e \<Rightarrow> Inl e | Inr b \<Rightarrow> Inr (Num (if b then 1 else 0)))"

definition labeler :: "cell list \<Rightarrow> error + cell list" where
  "labeler col = traverse binarize col"

definition label_column :: "dataframe \<Rightarrow> error + dataframe" where
  "label_column df =
     (case get_column ''ARRIVAL_DELAY'' df of
        Inl e \<Rightarrow> Inl e
      | Inr col \<Rightarrow>
          (case labeler col of
             Inl e \<Rightarrow> Inl e
           | Inr labels \<Rightarrow> Inr (set_column ''ARRIVAL_DELAY'' labels df)))"

section \<open>Field lists\<close>

text \<open>The fields the encoding loop converts, and the names handed to LightGBM as categorical.\<close>

definition cols :: "string list" where
  "cols = [''AIRLINE'', ''FLIGHT_NUMBER'', ''DESTINATION_AIRPORT'', ''ORIGIN_AIRPORT'']"

definition cate_features_name :: "string list" where
  "cate_features_name =
     [''MONTH'', ''DAY'', ''DAY_OF_WEEK'', ''AIRLINE'', ''DESTINATION_AIRPORT'', ''ORIGIN_AIRPORT'']"

section \<open>Encoder\<close>

text \<open>
  \<^verbatim>\<open>data[item] = data[item].astype("category").cat.codes +1\<close> for each item of
  \<^verbatim>\<open>cols\<close>. The categories of a column are its distinct values that are not
  missing, in sorted order: pandas' \<^verbatim>\<open>safe_sort\<close> puts the numbers first, in
  increasing order, and then the strings, which Python orders character by character.
  The code of a value is its position in the categories, and \<open>-1\<close> for a missing value.
  pandas stores the codes in the narrowest signed integer type that holds the number of
  categories, so adding 1 cannot wrap; the codes are modelled as \<open>int\<close>.
\<close>

fun unique :: "'a list \<Rightarrow> 'a list" where
  "unique [] = []"
| "unique (x # xs) = x # filter (\<lambda>y. y \<noteq> x) (unique xs)"

definition safe_sort :: "cell list \<Rightarrow> cell list" where
  "safe_sort u =
     map Num (sort (map num_of (filter is_Num u))) @ map Str (sort (map str_of (filter is_Str u)))"

definition categories :: "cell list \<Rightarrow> cell list" where
  "categories vs = safe_sort (unique (filter (\<lambda>v. v \<noteq> NaN) vs))"

fun index_of :: "'a \<Rightarrow> 'a list \<Rightarrow> nat" where
  "index_of x [] = 0"
| "index_of x (y # ys) = (if x = y then 0 else Suc (index_of x ys))"

definition category_code :: "cell list \<Rightarrow> cell \<Rightarrow> int" where
  "category_code cats v = (if v = NaN then - 1 else int (index_of v cats))"

definition cat_codes :: "cell list \<Rightarrow> int list" where
  "cat_codes vs = map (category_code (categories vs)) vs"

definition encode :: "cell list \<Rightarrow> cell list" where
  "encode vs = map (\<lambda>code. Num (of_int (code + 1))) (cat_codes vs)"

definition encode_column :: "string \<Rightarrow> dataframe \<Rightarrow> error + dataframe" where
  "encode_column item df =
     and_then (get_column item df) (\<lambda>col. Inr (set_column item (encode col) df))"

fun encoder :: "string list \<Rightarrow> dataframe \<Rightarrow> error + dataframe" where
  "encoder [] df = Inr df"
| "encoder (item # items) df = and_then (encode_column item df) (encoder items)"

section \<open>Splitter\<close>

text \<open>
  \<^verbatim>\<open>train_test_split(X, y, random_state=10, test_size=0.25)\<close> of scikit-learn.
  With a float \<^verbatim>\<open>test_size\<close> strictly between 0 and 1 and no \<^verbatim>\<open>train_size\<close>,
  \<^verbatim>\<open>_validate_shuffle_split\<close> sets \<^verbatim>\<open>n_test = ceil(test_size * n_samples)\<close> and
  \<^verbatim>\<open>n_train = n_samples - n_test\<close>, and raises when the train set would be empty.
  \<^verbatim>\<open>ShuffleSplit\<close> then draws one permutation: its first \<open>n_test\<close> entries are the
  test positions and the next \<open>n_train\<close> the train positions, and every array is
  indexed with both. The product \<open>0.25 * n\<close> of the script is exact in binary floating
  point, so it is written with exact arithmetic.
\<close>

definition validate_shuffle_split :: "nat \<Rightarrow> real \<Rightarrow> error + nat \<times> nat" where
  "validate_shuffle_split n_samples test_size =
     (if test_size \<le> 0 \<or> 1 \<le> test_size
      then Inl (ValueError ''test_size should be a float in the (0, 1) range'')
      else (let n_test = nat \<lceil>test_size * real n_samples\<rceil>;
                n_train = n_samples - n_test
            in if n_train = 0
               then Inl (ValueError ''the resulting train set will be empty'')
               else Inr (n_train, n_test)))"

definition shuffle_split :: "rng \<Rightarrow> nat \<Rightarrow> nat \<Rightarrow> nat \<Rightarrow> nat \<Rightarrow> nat list \<times> nat list" where
  "shuffle_split permutation random_state n_samples n_train n_test =
     (let p = permutation random_state n_samples
      in (take n_train (drop n_test p), take n_test p))"

record split_result =
  X_train :: dataframe
  X_test :: dataframe
  y_train :: "cell list"
  y_test :: "cell list"

definition train_test_split :: "rng \<Rightarrow> dataframe \<Rightarrow> cell list \<Rightarrow> real \<Rightarrow> nat \<Rightarrow> error + split_result" where
  "train_test_split permutation X y test_size random_state =
     (if length y \<noteq> length (rows X)
      then Inl (ValueError ''Found input variables with inconsistent numbers of samples'')
      else
        and_then (validate_shuffle_split (length (rows X)) test_size) (\<lambda>(n_train, n_test).
          (let (train, test) = shuffle_split permutation random_state (length (rows X)) n_train n_test
           in and_then (safe_indexing (rows X) train) (\<lambda>X_tr.
              and_then (safe_indexing (rows X) test) (\<lambda>X_te.
              and_then (safe_indexing y train) (\<lambda>y_tr.
              and_then (safe_indexing y test) (\<lambda>y_te.
                Inr \<lparr>X_train = X\<lparr>rows := X_tr\<rparr>, X_test = X\<lparr>rows := X_te\<rparr>,
                     y_train = y_tr, y_test = y_te\<rparr>)))))))"

section \<open>The script up to the split\<close>

text \<open>
  The cells of the notebook in their order, from the frame \<^verbatim>\<open>read_csv\<close> returned:
  sample, select the eleven columns, drop rows with missing values, binarize the delay,
  encode the categorical columns, split.
\<close>

definition selected_columns :: "string list" where
  "selected_columns =
     [''MONTH'', ''DAY'', ''DAY_OF_WEEK'', ''AIRLINE'', ''FLIGHT_NUMBER'', ''DESTINATION_AIRPORT'',
      ''ORIGIN_AIRPORT'', ''AIR_TIME'', ''DEPARTURE_TIME'', ''DISTANCE'', ''ARRIVAL_DELAY'']"

definition clean_and_label :: "rng \<Rightarrow> (real \<Rightarrow> real \<Rightarrow> real) \<Rightarrow> dataframe \<Rightarrow> error + dataframe" where
  "clean_and_label permutation float_mul raw =
     and_then (sample permutation float_mul (1 / 10) 10 raw) (\<lambda>sampled.
     and_then (select_columns selected_columns sampled) (\<lambda>selected.
     label_column (dropna selected)))"

definition split_data :: "rng \<Rightarrow> dataframe \<Rightarrow> error + split_result" where
  "split_data permutation data =
     and_then (drop_column ''ARRIVAL_DELAY'' data) (\<lambda>X.
     and_then (get_column ''ARRIVAL_DELAY'' data) (\<lambda>y.
     train_test_split permutation X y (1 / 4) 10))"

definition pipeline :: "rng \<Rightarrow> (real \<Rightarrow> real \<Rightarrow> real) \<Rightarrow> dataframe \<Rightarrow> error + split_result" where
  "pipeline permutation float_mul raw =
     and_then (clean_and_label permutation float_mul raw) (\<lambda>labelled.
     and_then (encoder cols labelled) (\<lambda>data.
     split_data permutation data))"

section \<open>Evaluator\<close>

text \<open>
  \<^verbatim>\<open>metrics.roc_auc_score(y_true, y_score)\<close> of scikit-learn, for a vector of labels
  and a vector of finite scores. The labels are the sorted distinct values of
  \<^verbatim>\<open>y_true\<close> (\<^verbatim>\<open>np.unique\<close>, which raises \<^verbatim>\<open>TypeError\<close> on numbers mixed
  with strings); the call raises unless there are exactly two, and the second one is
  the positive class. \<^verbatim>\<open>_binary_clf_curve\<close> sorts the samples by decreasing score with
  a stable sort and reads the counts of false and true positives at the last sample of
  every run of equal scores; \<^verbatim>\<open>roc_curve\<close> drops the points collinear with their
  neighbours, starts the curve at the origin and divides by the totals; \<^verbatim>\<open>auc\<close>
  integrates with the trapezoidal rule. The counts are small integers and the rates
  their quotients, written with exact arithmetic. A float result can be \<^verbatim>\<open>nan\<close>,
  so a score is a \<^typ>\<open>cell\<close>.
\<close>

definition only_one_class :: string where
  "only_one_class = ''Only one class present in y_true. ROC AUC score is not defined in that case.''"

definition sort_cells :: "cell list \<Rightarrow> cell list option" where
  "sort_cells u =
     (if list_all is_Num u then Some (map Num (sort (map num_of u)))
      else if list_all is_Str u then Some (map Str (sort (map str_of u)))
      else None)"

definition np_unique :: "cell list \<Rightarrow> error + cell list" where
  "np_unique y = (case sort_cells (unique y) of Some labels \<Rightarrow> Inr labels | None \<Rightarrow> Inl TypeError)"

fun clf_points :: "nat \<Rightarrow> nat \<Rightarrow> (real \<times> bool) list \<Rightarrow> (nat \<times> nat) list" where
  "clf_points fps tps [] = []"
| "clf_points fps tps [(s, y)] = [(fps + (if y then 0 else 1), tps + (if y then 1 else 0))]"
| "clf_points fps tps ((s, y) # (s', y') # rest) =
     (let fps' = fps + (if y then 0 else 1); tps' = tps + (if y then 1 else 0)
      in (if s \<noteq> s' then [(fps', tps')] else []) @ clf_points fps' tps' ((s', y') # rest))"

definition binary_clf_curve :: "bool list \<Rightarrow> real list \<Rightarrow> (nat \<times> nat) list" where
  "binary_clf_curve y_true y_score = clf_points 0 0 (rev (sort_key fst (zip y_score y_true)))"

fun interior_points :: "(int \<times> int) list \<Rightarrow> (int \<times> int) list" where
  "interior_points (p # q # r # rest) =
     (if fst r - 2 * fst q + fst p \<noteq> 0 \<or> snd r - 2 * snd q + snd p \<noteq> 0 then [q] else [])
     @ interior_points (q # r # rest)"
| "interior_points ps = []"

definition drop_intermediate :: "(int \<times> int) list \<Rightarrow> (int \<times> int) list" where
  "drop_intermediate ps = (if 2 < length ps then hd ps # interior_points ps @ [last ps] else ps)"

definition roc_curve :: "bool list \<Rightarrow> real list \<Rightarrow> (real \<times> real) list option" where
  "roc_curve y_true y_score =
     (let pts = drop_intermediate (map (\<lambda>(f, t). (int f, int t)) (binary_clf_curve y_true y_score));
          pts0 = (case pts of
                    [] \<Rightarrow> [(0, 0)]
                  | p # _ \<Rightarrow> if fst p \<noteq> 0 \<or> snd p \<noteq> 0 then (0, 0) # pts else pts);
          n_neg = fst (last pts0);
          n_pos = snd (last pts0)
      in if n_neg \<le> 0 \<or> n_pos \<le> 0 then None
         else Some (map (\<lambda>(f, t). (real_of_int f / real_of_int n_neg,
                                     real_of_int t / real_of_int n_pos)) pts0))"

fun trapz :: "(real \<times> real) list \<Rightarrow> real" where
  "trapz ((x0, y0) # (x1, y1) # ps) = (x1 - x0) * (y0 + y1) / 2 + trapz ((x1, y1) # ps)"
| "trapz ps = 0"

fun diffs :: "real list \<Rightarrow> real list" where
  "diffs (a # b # xs) = (b - a) # diffs (b # xs)"
| "diffs xs = []"

definition metrics_auc :: "(real \<times> real) list \<Rightarrow> error + real" where
  "metrics_auc pts =
     (if length pts < 2
      then Inl (ValueError ''At least 2 points are needed to compute area under curve'')
      else (let dx = diffs (map fst pts)
            in if list_ex (\<lambda>d. d < 0) dx
               then (if list_all (\<lambda>d. d \<le> 0) dx then Inr (- trapz pts)
                     else Inl (ValueError ''x is neither increasing nor decreasing''))
               else Inr (trapz pts)))"

definition roc_auc_score :: "cell list \<Rightarrow> real list \<Rightarrow> error + cell" where
  "roc_auc_score y_true y_score =
     (if y_true = [] then Inl (ValueError ''Found array with 0 sample(s)'')
      else if NaN \<in> set y_true then Inl (ValueError ''Input contains NaN'')
      else and_then (np_unique y_true) (\<lambda>labels.
        if list_ex (\<lambda>c. is_Num c \<and> real_of_int \<lfloor>num_of c\<rfloor> \<noteq> num_of c) labels
          then Inl (ValueError ''continuous format is not supported'')
        else if 2 < length labels then Inl (ValueError ''multiclass format is not supported'')
        else if length labels \<noteq> 2 then Inl (ValueError only_one_class)
        else if length y_score \<noteq> length y_true
          then Inl (ValueError ''Found input variables with inconsistent numbers of samples'')
        else (case roc_curve (map (\<lambda>c. c = last labels) y_true) y_score of
                None \<Rightarrow> Inr NaN
              | Some pts \<Rightarrow> and_then (metrics_auc pts) (\<lambda>area. Inr (Num area)))))"

text \<open>
  A trained model is used through two operations only: \<^verbatim>\<open>predict_proba\<close>, one pair
  of class probabilities per row, and \<^verbatim>\<open>predict\<close>, one score per row.
\<close>

record model =
  predict_proba :: "dataframe \<Rightarrow> (real \<times> real) list"
  predict :: "dataframe \<Rightarrow> real list"

text \<open>
  \<^verbatim>\<open>def auc(m, X_train, X_test)\<close> and \<^verbatim>\<open>def auc2(m, train, test)\<close>. The two
  feature matrices are parameters (in \<^verbatim>\<open>auc\<close> they shadow the globals of the same
  name); \<^verbatim>\<open>y_train\<close> and \<^verbatim>\<open>y_test\<close> are read from the notebook's global scope,
  the first argument here. The tuple is built left to right, so an exception of the first
  score ends the call.
\<close>

definition auc :: "split_result \<Rightarrow> model \<Rightarrow> dataframe \<Rightarrow> dataframe \<Rightarrow> error + cell \<times> cell" where
  "auc globals m X_train' X_test' =
     and_then (roc_auc_score (y_train globals) (map snd (predict_proba m X_train'))) (\<lambda>train_auc.
     and_then (roc_auc_score (y_test globals) (map snd (predict_proba m X_test'))) (\<lambda>test_auc.
       Inr (train_auc, test_auc)))"

definition auc2 :: "split_result \<Rightarrow> model \<Rightarrow> dataframe \<Rightarrow> dataframe \<Rightarrow> error + cell \<times> cell" where
  "auc2 globals m train test =
     and_then (roc_auc_score (y_train globals) (predict m train)) (\<lambda>train_auc.
     and_then (roc_auc_score (y_test globals) (predict m test)) (\<lambda>test_auc.
       Inr (train_auc, test_auc)))"

text \<open>
  The labels that belong to the rows of a feature matrix. A row is identified by its index
  label, as in pandas; \<open>X\<close> and \<open>y\<close> are the frame and the label vector handed to
  \<^verbatim>\<open>train_test_split\<close>. \<open>auc_true_labels\<close> and \<open>auc2_true_labels\<close> are the
  specification's correct result: the scores of each matrix compared with the labels of its
  own rows.
\<close>

definition true_labels :: "dataframe \<Rightarrow> cell list \<Rightarrow> dataframe \<Rightarrow> cell list" where
  "true_labels X y A =
     map (\<lambda>r. case map_of (zip (map fst (rows X)) y) (fst r) of Some l \<Rightarrow> l | None \<Rightarrow> NaN) (rows A)"

definition auc_true_labels :: "dataframe \<Rightarrow> cell list \<Rightarrow> model \<Rightarrow> dataframe \<Rightarrow> dataframe \<Rightarrow> error + cell \<times> cell" where
  "auc_true_labels X y m A B =
     and_then (roc_auc_score (true_labels X y A) (map snd (predict_proba m A))) (\<lambda>train_auc.
     and_then (roc_auc_score (true_labels X y B) (map snd (predict_proba m B))) (\<lambda>test_auc.
       Inr (train_auc, test_auc)))"

definition auc2_true_labels :: "dataframe \<Rightarrow> cell list \<Rightarrow> model \<Rightarrow> dataframe \<Rightarrow> dataframe \<Rightarrow> error + cell \<times> cell" where
  "auc2_true_labels X y m A B =
     and_then (roc_auc_score (true_labels X y A) (predict m A)) (\<lambda>train_auc.
     and_then (roc_auc_score (true_labels X y B) (predict m B)) (\<lambda>test_auc.
       Inr (train_auc, test_auc)))"

section \<open>Example data\<close>

text \<open>
  A small frame in the shape of \<^verbatim>\<open>flights.csv\<close> and a stand-in for the generator
  (the reversed range), on which the definitions are run in the examples below.
\<close>

definition example_permutation :: rng where
  "example_permutation seed n = rev [0..<n]"

definition example_row :: "nat \<Rightarrow> row" where
  "example_row i =
     (i, (\<lambda>c. NaN)
         (''YEAR'' := Num 2015,
          ''MONTH'' := Num 1,
          ''DAY'' := Num (real (i + 1)),
          ''DAY_OF_WEEK'' := Num (real (i mod 7 + 1)),
          ''AIRLINE'' := Str (if i mod 3 = 0 then ''AA'' else if i mod 3 = 1 then ''DL'' else ''UA''),
          ''FLIGHT_NUMBER'' := Num (real (100 + i mod 3)),
          ''DESTINATION_AIRPORT'' := Str (if i mod 3 = 0 then ''SEA'' else if i mod 3 = 1 then ''LAX'' else ''JFK''),
          ''ORIGIN_AIRPORT'' := Str (if i mod 3 = 0 then ''ANC'' else if i mod 3 = 1 then ''SFO'' else ''ORD''),
          ''AIR_TIME'' := (if i mod 5 = 2 then NaN else Num 120),
          ''DEPARTURE_TIME'' := Num 800,
          ''DISTANCE'' := Num (real (500 + i)),
          ''ARRIVAL_DELAY'' := Num (real i - 5)))"

definition example_raw :: dataframe where
  "example_raw = \<lparr>columns = ''YEAR'' # selected_columns, rows = map example_row [0..<20]\<rparr>"

definition example_flights :: dataframe where
  "example_flights = \<lparr>columns = selected_columns, rows = map example_row [0..<10]\<rparr>"

definition example_X :: dataframe where
  "example_X = \<lparr>columns = [''AIRLINE'', ''DISTANCE''],
                 rows = map (\<lambda>i. restrict_row [''AIRLINE'', ''DISTANCE''] (example_row i)) [0..<5]\<rparr>"

definition example_y :: "cell list" where
  "example_y = [Num 0, Num 0, Num 1, Num 1, Num 0]"

definition example_scores :: "real list" where
  "example_scores = [1 / 10, 4 / 10, 35 / 100, 8 / 10, 2 / 10]"

definition example_model :: model where
  "example_model =
     \<lparr>predict_proba = (\<lambda>X. map (\<lambda>r. (1 - real (fst r) / 10, real (fst r) / 10)) (rows X)),
      predict = (\<lambda>X. map (\<lambda>r. real (fst r) / 10) (rows X))\<rparr>"

definition example_globals :: split_result where
  "example_globals = projr (train_test_split example_permutation example_X example_y (1 / 4) 10)"

definition example_delay_values :: "real list" where
  "example_delay_values =
     [- 5, - 4, - 3, - 2, - 1, 0, 1, 2, 3, 4, 5, 6, 7, 8, 9, 10, 11, 12, 13, 14]"

text \<open>The float nearest to one tenth, which is what the literal \<^verbatim>\<open>0.1\<close> denotes.\<close>

definition float_one_tenth :: real where
  "float_one_tenth = 3602879701896397 / 2 ^ 55"

definition example_reordered_train :: dataframe where
  "example_reordered_train = example_X\<lparr>rows := [rows example_X ! 0, rows example_X ! 1, rows example_X ! 2]\<rparr>"

definition example_other_train :: dataframe where
  "example_other_train = example_X\<lparr>rows := [rows example_X ! 2, rows example_X ! 4, rows example_X ! 1]\<rparr>"

section \<open>Basic facts\<close>

lemma traverse_map_Inr: "(\<And>x. x \<in> set xs \<Longrightarrow> f x = Inr (g x)) \<Longrightarrow> traverse f xs = Inr (map g xs)"
  by (induction xs) auto

lemma safe_indexing_Inr:
  "\<forall>i \<in> set ind. i < length xs \<Longrightarrow> safe_indexing xs ind = Inr (map (\<lambda>i. xs ! i) ind)"
  unfolding safe_indexing_def by (rule traverse_map_Inr) simp

lemma and_then_Inr [simp]: "and_then (Inr x) f = f x"
  by (simp add: and_then_def)

lemma and_then_Inl [simp]: "and_then (Inl e) f = Inl e"
  by (simp add: and_then_def)

lemma and_then_eq_Inr: "and_then r f = Inr y \<longleftrightarrow> (\<exists>x. r = Inr x \<and> f x = Inr y)"
  by (cases r) simp_all

text \<open>Reading and writing a column of a frame.\<close>

lemma get_column_length: "get_column c df = Inr col \<Longrightarrow> length col = length (rows df)"
  by (auto simp: get_column_def split: if_splits)

lemma get_set_same:
  "length vals = length (rows df) \<Longrightarrow> c \<in> set (columns df)
   \<Longrightarrow> get_column c (set_column c vals df) = Inr vals"
proof -
  assume len: "length vals = length (rows df)" and c: "c \<in> set (columns df)"
  have "map (\<lambda>r. snd r c) (map (\<lambda>(r, v). (fst r, (snd r)(c := v))) (zip (rows df) vals))
        = map snd (zip (rows df) vals)"
    by (simp add: case_prod_beta comp_def)
  also have "\<dots> = vals" using len by (simp add: map_snd_zip)
  finally show ?thesis using c by (simp add: get_column_def set_column_def)
qed

lemma get_set_other:
  "length vals = length (rows df) \<Longrightarrow> d \<noteq> c
   \<Longrightarrow> get_column d (set_column c vals df) = get_column d df"
proof -
  assume len: "length vals = length (rows df)" and d: "d \<noteq> c"
  have "map (\<lambda>r. snd r d) (map (\<lambda>(r, v). (fst r, (snd r)(c := v))) (zip (rows df) vals))
        = map (\<lambda>r. snd r d) (map fst (zip (rows df) vals))"
    using d by (simp add: case_prod_beta comp_def)
  also have "\<dots> = map (\<lambda>r. snd r d) (rows df)" using len by (simp add: map_fst_zip)
  finally show ?thesis using d by (simp add: get_column_def set_column_def)
qed

lemma set_column_index:
  "length vals = length (rows df) \<Longrightarrow> map fst (rows (set_column c vals df)) = map fst (rows df)"
proof -
  assume len: "length vals = length (rows df)"
  have "map fst (map (\<lambda>(r, v). (fst r, (snd r)(c := v))) (zip (rows df) vals))
        = map fst (map fst (zip (rows df) vals))"
    by (simp add: case_prod_beta comp_def)
  also have "\<dots> = map fst (rows df)" using len by (simp add: map_fst_zip)
  finally show ?thesis by (simp add: set_column_def)
qed

text \<open>What the theorems use of a permutation of \<open>0, ..., n - 1\<close>.\<close>

lemma perm_set: "mset p = mset [0..<n] \<Longrightarrow> set p = {0..<n}"
  by (metis set_mset_mset set_upt)

lemma perm_distinct: "mset p = mset [0..<n] \<Longrightarrow> distinct p"
  by (metis distinct_upt mset_eq_imp_distinct_iff)

lemma perm_length: "mset p = mset [0..<n] \<Longrightarrow> length p = n"
  by (metis length_upt mset_eq_length minus_nat.diff_0)

lemma mset_map_nth_perm:
  assumes "mset p = mset [0..<length xs]"
  shows "mset (map (\<lambda>i. xs ! i) p) = mset xs"
proof -
  have "mset (map (\<lambda>i. xs ! i) p) = image_mset (\<lambda>i. xs ! i) (mset p)" by simp
  also have "\<dots> = image_mset (\<lambda>i. xs ! i) (mset [0..<length xs])" using assms by simp
  also have "\<dots> = mset (map (\<lambda>i. xs ! i) [0..<length xs])" by simp
  also have "\<dots> = mset xs" by (simp add: map_nth)
  finally show ?thesis .
qed

lemma example_permutation_perm: "mset (example_permutation seed n) = mset [0..<n]"
  by (simp add: example_permutation_def)

text \<open>Ranges written out, for running the definitions on the examples.\<close>

lemma upt_5: "[0..<5] = [0, 1, 2, 3, 4 :: nat]"
  by code_simp

lemma upt_10: "[0..<10] = [0, 1, 2, 3, 4, 5, 6, 7, 8, 9 :: nat]"
  by code_simp

lemma upt_20: "[0..<20] = [0, 1, 2, 3, 4, 5, 6, 7, 8, 9, 10, 11, 12, 13, 14, 15, 16, 17, 18, 19 :: nat]"
  by code_simp

lemma example_X_length: "length (rows example_X) = 5"
  by (simp add: example_X_def)

lemma example_y_length: "length example_y = 5"
  by (simp add: example_y_def)

section \<open>Sampler: row count\<close>

lemma py_round_nonneg: "0 \<le> x \<Longrightarrow> 0 \<le> py_round x"
  by (auto simp: py_round_def Let_def)

lemma py_round_le: "x \<le> real n \<Longrightarrow> py_round x \<le> int n"
proof -
  assume x: "x \<le> real n"
  then have fl: "\<lfloor>x\<rfloor> \<le> int n" by (simp add: floor_le_iff)
  show ?thesis
  proof (cases "x = of_int \<lfloor>x\<rfloor>")
    case True
    then show ?thesis using fl by (simp add: py_round_def Let_def)
  next
    case False
    then have "of_int \<lfloor>x\<rfloor> < x" using of_int_floor_le [of x] by linarith
    with x have "real_of_int \<lfloor>x\<rfloor> < real n" by linarith
    then have "\<lfloor>x\<rfloor> < int n" by linarith
    then show ?thesis by (simp add: py_round_def Let_def)
  qed
qed

lemma py_round_le_int: "x \<le> of_int m \<Longrightarrow> py_round x \<le> m"
proof -
  assume x: "x \<le> of_int m"
  then have fl: "\<lfloor>x\<rfloor> \<le> m" by (simp add: floor_le_iff)
  show ?thesis
  proof (cases "x = of_int \<lfloor>x\<rfloor>")
    case True
    then show ?thesis using fl by (simp add: py_round_def Let_def)
  next
    case False
    then have "of_int \<lfloor>x\<rfloor> < x" using of_int_floor_le [of x] by linarith
    with x have "real_of_int \<lfloor>x\<rfloor> < of_int m" by linarith
    then have "\<lfloor>x\<rfloor> < m" by linarith
    then show ?thesis by (simp add: py_round_def Let_def)
  qed
qed

lemma py_round_nearest:
  "\<bar>real_of_int (py_round x) - x\<bar> \<le> 1 / 2
   \<and> (\<bar>real_of_int (py_round x) - x\<bar> = 1 / 2 \<longrightarrow> even (py_round x))"
proof -
  have "of_int \<lfloor>x\<rfloor> \<le> x" "x < of_int \<lfloor>x\<rfloor> + 1" by linarith+
  then show ?thesis by (auto simp: py_round_def Let_def)
qed

lemma floor_log2_powi:
  assumes "0 < x"
  shows "2 powi \<lfloor>log 2 x\<rfloor> \<le> x \<and> x < 2 powi (\<lfloor>log 2 x\<rfloor> + 1)"
proof -
  have "2 powr real_of_int \<lfloor>log 2 x\<rfloor> \<le> x \<and> x < 2 powr (real_of_int \<lfloor>log 2 x\<rfloor> + 1)"
    using floor_log_eq_powr_iff [of x 2 "\<lfloor>log 2 x\<rfloor>"] assms by simp
  moreover have "2 powr real_of_int k = 2 powi k" for k :: int
    by (simp add: powr_real_of_int')
  moreover have "real_of_int \<lfloor>log 2 x\<rfloor> + 1 = real_of_int (\<lfloor>log 2 x\<rfloor> + 1)" by simp
  ultimately show ?thesis by metis
qed

lemma floor_log2_eq:
  assumes "0 < x" "2 powi e \<le> x" "x < 2 powi (e + 1)"
  shows "\<lfloor>log 2 x\<rfloor> = e"
proof -
  have "2 powr real_of_int k = 2 powi k" for k :: int
    by (simp add: powr_real_of_int')
  then have "2 powr real_of_int e \<le> x \<and> x < 2 powr (real_of_int e + 1)"
    using assms by (metis of_int_1 of_int_add)
  then show ?thesis using floor_log_eq_powr_iff [of x 2 e] assms(1) by simp
qed

lemma float64_round_nonneg: "0 \<le> x \<Longrightarrow> 0 \<le> float64_round x"
  by (auto simp: float64_round_def Let_def py_round_nonneg intro!: mult_nonneg_nonneg)

lemma float64_round_le:
  assumes x0: "0 \<le> x" and xn: "x \<le> real n" and n53: "n < 2 ^ 53"
  shows "float64_round x \<le> real n"
proof (cases "x = 0")
  case True
  then show ?thesis by (simp add: float64_round_def)
next
  case False
  then have xp: "0 < x" using x0 by simp
  define e where "e = \<lfloor>log 2 x\<rfloor>"
  define ulp :: real where "ulp = 2 powi (e - 52)"
  have lo: "2 powi e \<le> x" using floor_log2_powi [OF xp] by (simp add: e_def)
  have e52: "e \<le> 52"
  proof (rule ccontr)
    assume "\<not> e \<le> 52"
    then have "53 \<le> e" by simp
    then have "(2::real) powi 53 \<le> 2 powi e" by (intro power_int_increasing) simp_all
    then have "(2::real) ^ 53 \<le> x" using lo by simp
    moreover have "real n < 2 ^ 53" using n53 by (metis of_nat_less_iff of_nat_numeral of_nat_power)
    ultimately show False using xn by linarith
  qed
  have up: "0 < ulp" by (simp add: ulp_def)
  define M where "M = int n * 2 ^ nat (52 - e)"
  have "(2::real) powi (52 - e) = 2 ^ nat (52 - e)" using e52 by (simp add: power_int_def)
  moreover have "(2::real) powi (e - 52) * 2 powi (52 - e) = 1"
    by (simp add: power_int_add [symmetric])
  ultimately have Mu: "real_of_int M * ulp = real n"
    by (simp add: M_def ulp_def mult.assoc mult.commute)
  have "x / ulp \<le> real n / ulp" using xn up by (simp add: divide_right_mono)
  also have "real n / ulp = real_of_int M" using Mu up by (simp add: field_simps)
  finally have "py_round (x / ulp) \<le> M" by (rule py_round_le_int)
  then have "real_of_int (py_round (x / ulp)) * ulp \<le> real_of_int M * ulp"
    using up by (simp add: mult_right_mono)
  moreover have "float64_round x = real_of_int (py_round (x / ulp)) * ulp"
    using xp by (simp add: float64_round_def Let_def e_def ulp_def)
  ultimately show ?thesis using Mu by simp
qed

lemma float64_round_error:
  assumes "0 \<le> x"
  shows "\<bar>float64_round x - x\<bar> \<le> x / 2 ^ 53"
proof (cases "x = 0")
  case True
  then show ?thesis by (simp add: float64_round_def)
next
  case False
  then have xp: "0 < x" using assms by simp
  define e where "e = \<lfloor>log 2 x\<rfloor>"
  define ulp :: real where "ulp = 2 powi (e - 52)"
  have lo: "2 powi e \<le> x" using floor_log2_powi [OF xp] by (simp add: e_def)
  have up: "0 < ulp" by (simp add: ulp_def)
  have fr: "float64_round x = real_of_int (py_round (x / ulp)) * ulp"
    using xp by (simp add: float64_round_def Let_def e_def ulp_def)
  have "\<bar>real_of_int (py_round (x / ulp)) - x / ulp\<bar> \<le> 1 / 2"
    using py_round_nearest [of "x / ulp"] by simp
  then have "\<bar>real_of_int (py_round (x / ulp)) - x / ulp\<bar> * ulp \<le> 1 / 2 * ulp"
    using up by (simp add: mult_right_mono)
  moreover have "\<bar>real_of_int (py_round (x / ulp)) - x / ulp\<bar> * ulp = \<bar>float64_round x - x\<bar>"
    using up by (simp add: fr abs_mult [symmetric] abs_of_pos left_diff_distrib)
       (simp add: field_simps abs_of_pos)
  moreover have "1 / 2 * ulp = 2 powi e / 2 ^ 53"
  proof -
    have "(2::real) powi (e - 52) = 2 powi e / 2 ^ 52"
      by (simp add: power_int_diff)
    then show ?thesis by (simp add: ulp_def)
  qed
  moreover have "2 powi e / 2 ^ 53 \<le> x / 2 ^ 53" using lo by (simp add: divide_right_mono)
  ultimately show ?thesis by linarith
qed

text \<open>The Sampler for any product that lies between 0 and the row count.\<close>

lemma sample_run:
  assumes perm: "mset (permutation seed (length (rows df))) = mset [0..<length (rows df)]"
    and lo: "0 \<le> float_mul f (real (length (rows df)))"
    and hi: "float_mul f (real (length (rows df))) \<le> real (length (rows df))"
  shows "\<exists>out locs.
      sample permutation float_mul f seed df = Inr out
      \<and> locs = take (nat (py_round (float_mul f (real (length (rows df))))))
                    (permutation seed (length (rows df)))
      \<and> rows out = map (\<lambda>i. rows df ! i) locs \<and> columns out = columns df
      \<and> distinct locs \<and> set locs \<subseteq> {0..<length (rows df)}
      \<and> int (length (rows out)) = py_round (float_mul f (real (length (rows df))))"
proof -
  define n where "n = length (rows df)"
  define k where "k = py_round (float_mul f (real n))"
  define p where "p = permutation seed n"
  define locs where "locs = take (nat k) p"
  have pm: "mset p = mset [0..<n]" using perm by (simp add: p_def n_def)
  have lp: "length p = n" and dp: "distinct p" and sp: "set p = {0..<n}"
    using pm by (rule perm_length, rule perm_distinct, rule perm_set)
  have k0: "0 \<le> k" using lo by (simp add: k_def n_def py_round_nonneg)
  have kn: "k \<le> int n" using hi by (simp add: k_def n_def py_round_le)
  have sub: "set locs \<subseteq> {0..<n}" using sp set_take_subset [of "nat k" p] by (simp add: locs_def)
  then have rng: "\<forall>i \<in> set locs. i < length (rows df)" by (auto simp: n_def)
  have dl: "distinct locs" using dp by (simp add: locs_def)
  have ll: "int (length locs) = k" using k0 kn by (simp add: locs_def lp)
  define out where "out = df\<lparr>rows := map (\<lambda>i. rows df ! i) locs\<rparr>"
  have run: "sample permutation float_mul f seed df = Inr out"
    using k0 kn rng
    by (simp add: sample_def Let_def n_def [symmetric] k_def [symmetric] p_def [symmetric]
        locs_def [symmetric] safe_indexing_Inr out_def)
  show ?thesis
    using run sub dl ll unfolding n_def k_def p_def locs_def
    by (intro exI [of _ out] exI [of _ "take (nat (py_round (float_mul f (real (length (rows df)))))) (permutation seed (length (rows df)))"])
       (simp add: out_def locs_def k_def p_def n_def)
qed

lemma example_raw_length: "length (rows example_raw) = 20"
  by (simp add: example_raw_def)

lemma take_example_permutation: "take 2 (example_permutation 10 20) = [19, 18]"
  by code_simp

lemma py_round_of_int: "py_round (of_int k) = k"
  by (simp add: py_round_def Let_def)

lemma py_round_2: "py_round 2 = 2"
  using py_round_of_int [of 2] by simp

lemma sample_example:
  "sample example_permutation (*) (1 / 10) 10 example_raw
     = Inr (example_raw\<lparr>rows := [example_row 19, example_row 18]\<rparr>)"
proof -
  have "rows example_raw ! 19 = example_row 19" "rows example_raw ! 18 = example_row 18"
    by (simp_all add: example_raw_def)
  then show ?thesis
    by (simp add: sample_def Let_def example_raw_length take_example_permutation py_round_2
        safe_indexing_def)
qed

text \<open>
  C5, as the code has it. For a frame of \<open>n < 2\<^sup>5\<^sup>3\<close> rows and a fraction \<open>f\<close> in
  \<open>(0, 1]\<close>, the Sampler returns exactly \<open>k\<close> rows, where \<open>k\<close> is Python's \<open>round\<close> of
  the floating-point product of \<open>f\<close> and \<open>n\<close>: the integer nearest to that product, the
  even one when two are equally near; the floating-point product is within a relative
  error of \<open>2\<^sup>-\<^sup>5\<^sup>3\<close> of \<open>f \<times> n\<close>. The rows are those of the input at the first
  \<open>k\<close> positions of the seeded permutation, which are distinct positions of the input.
  The result is this function of the frame, the seed and \<open>f\<close>, so two calls with the
  same three return the same rows.
\<close>

theorem sampler_row_count:
  assumes perm: "mset (permutation seed (length (rows df))) = mset [0..<length (rows df)]"
    and f0: "0 < f" and f1: "f \<le> 1"
    and n53: "length (rows df) < 2 ^ 53"
  shows "\<exists>out locs k.
      sample permutation float64_mul f seed df = Inr out
      \<and> k = py_round (float64_round (f * real (length (rows df))))
      \<and> \<bar>real_of_int k - float64_round (f * real (length (rows df)))\<bar> \<le> 1 / 2
      \<and> (\<bar>real_of_int k - float64_round (f * real (length (rows df)))\<bar> = 1 / 2 \<longrightarrow> even k)
      \<and> \<bar>float64_round (f * real (length (rows df))) - f * real (length (rows df))\<bar>
            \<le> f * real (length (rows df)) / 2 ^ 53
      \<and> locs = take (nat k) (permutation seed (length (rows df)))
      \<and> rows out = map (\<lambda>i. rows df ! i) locs \<and> columns out = columns df
      \<and> distinct locs \<and> set locs \<subseteq> {0..<length (rows df)}
      \<and> int (length (rows out)) = k"
proof -
  define x where "x = f * real (length (rows df))"
  have x0: "0 \<le> x" using f0 by (simp add: x_def)
  have xn: "x \<le> real (length (rows df))"
    using mult_right_mono [of f 1 "real (length (rows df))"] f1 by (simp add: x_def)
  have lo: "0 \<le> float64_mul f (real (length (rows df)))"
    using float64_round_nonneg [OF x0] by (simp add: float64_mul_def x_def)
  have hi: "float64_mul f (real (length (rows df))) \<le> real (length (rows df))"
    using float64_round_le [OF x0 xn n53] by (simp add: float64_mul_def x_def)
  from sample_run [where permutation = permutation and seed = seed and float_mul = float64_mul,
      OF perm lo hi]
  obtain out locs
    where run: "sample permutation float64_mul f seed df = Inr out"
      and locs: "locs = take (nat (py_round (float64_mul f (real (length (rows df))))))
                    (permutation seed (length (rows df)))"
      and rest: "rows out = map (\<lambda>i. rows df ! i) locs" "columns out = columns df"
        "distinct locs" "set locs \<subseteq> {0..<length (rows df)}"
        "int (length (rows out)) = py_round (float64_mul f (real (length (rows df))))"
    by blast
  define k where "k = py_round (float64_round x)"
  have near: "\<bar>real_of_int k - float64_round x\<bar> \<le> 1 / 2
      \<and> (\<bar>real_of_int k - float64_round x\<bar> = 1 / 2 \<longrightarrow> even k)"
    unfolding k_def by (rule py_round_nearest)
  have err: "\<bar>float64_round x - x\<bar> \<le> x / 2 ^ 53"
    using x0 by (rule float64_round_error)
  have fm: "float64_mul f (real (length (rows df))) = float64_round x"
    by (simp add: float64_mul_def x_def)
  show ?thesis
    using run near err locs rest unfolding fm k_def x_def
    by (intro exI [of _ out] exI [of _ locs]
          exI [of _ "py_round (float64_round (f * real (length (rows df))))"]) simp
qed

lemma example_flights_length: "length (rows example_flights) = 10"
  by (simp add: example_flights_def)

lemma floor_log2_15_2: "\<lfloor>log 2 (15 / 2)\<rfloor> = 2"
  by (rule floor_log2_eq) simp_all

lemma float64_round_15_2: "float64_round (15 / 2) = 15 / 2"
  by (simp add: float64_round_def Let_def floor_log2_15_2 py_round_def)

text \<open>
  On the example frame of ten rows with the fraction three quarters: the product is
  7.5, a float, at equal distance from 7 and 8, and Python rounds it to the even
  neighbour 8.
\<close>

theorem sampler_row_count_witness:
  "mset (example_permutation 10 (length (rows example_flights)))
     = mset [0..<length (rows example_flights)]
   \<and> (0 :: real) < 3 / 4 \<and> (3 / 4 :: real) \<le> 1
   \<and> length (rows example_flights) < 2 ^ 53
   \<and> (\<exists>out locs k.
      sample example_permutation float64_mul (3 / 4) 10 example_flights = Inr out
      \<and> k = py_round (float64_round (3 / 4 * real (length (rows example_flights))))
      \<and> \<bar>real_of_int k - float64_round (3 / 4 * real (length (rows example_flights)))\<bar> \<le> 1 / 2
      \<and> (\<bar>real_of_int k - float64_round (3 / 4 * real (length (rows example_flights)))\<bar> = 1 / 2
           \<longrightarrow> even k)
      \<and> \<bar>float64_round (3 / 4 * real (length (rows example_flights)))
            - 3 / 4 * real (length (rows example_flights))\<bar>
            \<le> 3 / 4 * real (length (rows example_flights)) / 2 ^ 53
      \<and> locs = take (nat k) (example_permutation 10 (length (rows example_flights)))
      \<and> rows out = map (\<lambda>i. rows example_flights ! i) locs
      \<and> columns out = columns example_flights
      \<and> distinct locs \<and> set locs \<subseteq> {0..<length (rows example_flights)}
      \<and> int (length (rows out)) = k)
   \<and> py_round (float64_round (3 / 4 * real (length (rows example_flights)))) = 8
   \<and> \<bar>real_of_int 8 - float64_round (3 / 4 * real (length (rows example_flights)))\<bar> = 1 / 2"
proof -
  have h1: "mset (example_permutation 10 (length (rows example_flights)))
     = mset [0..<length (rows example_flights)]"
    by (rule example_permutation_perm)
  have h2: "(0 :: real) < 3 / 4" by simp
  have h3: "(3 / 4 :: real) \<le> 1" by simp
  have h4: "length (rows example_flights) < 2 ^ 53"
    by (simp add: example_flights_length)
  have "3 / 4 * real (length (rows example_flights)) = 15 / 2"
    by (simp add: example_flights_length)
  then have x: "float64_round (3 / 4 * real (length (rows example_flights))) = 15 / 2"
    by (simp add: float64_round_15_2)
  have n: "py_round (float64_round (3 / 4 * real (length (rows example_flights)))) = 8"
    unfolding x by (simp add: py_round_def Let_def)
  have tie: "\<bar>real_of_int 8 - float64_round (3 / 4 * real (length (rows example_flights)))\<bar> = 1 / 2"
    unfolding x by simp
  show ?thesis
    by (rule conjI [OF h1 conjI [OF h2 conjI [OF h3 conjI [OF h4 conjI [OF
          sampler_row_count [where permutation = example_permutation and seed = 10,
            OF h1 h2 h3 h4] conjI [OF n tie]]]]]])
qed

text \<open>
  The float nearest to 0.35, times 90: the floating-point product is just below 31.5 and
  31 rows are drawn, where the product of the decimal numbers, 31.5, would round to 32.
\<close>

lemma floor_log2_example: "\<lfloor>log 2 (141863388262170615 / 4503599627370496)\<rfloor> = 4"
  by (rule floor_log2_eq) simp_all

lemma float64_mul_example: "py_round (float64_mul (6305039478318694 / 2 ^ 54) 90) = 31"
proof -
  have x: "(6305039478318694 / 2 ^ 54) * 90 = (141863388262170615 / 4503599627370496 :: real)"
    by simp
  have "float64_round (141863388262170615 / 4503599627370496) = 8866461766385663 / 2 ^ 48"
    by (simp add: float64_round_def Let_def floor_log2_example py_round_def)
  then have m: "float64_mul (6305039478318694 / 2 ^ 54) 90 = 8866461766385663 / 2 ^ 48"
    by (simp only: float64_mul_def x)
  have "py_round (8866461766385663 / 2 ^ 48) = 31"
    by (simp add: py_round_def Let_def)
  then show ?thesis by (simp only: m)
qed

lemma decimal_product_example: "py_round ((35 / 100) * 90) = 32"
  by (simp add: py_round_def Let_def)

lemma float_one_tenth_times_5: "float_one_tenth * 5 = 18014398509481985 / 36028797018963968"
  by (simp add: float_one_tenth_def)

lemma floor_log2_half: "\<lfloor>log 2 (18014398509481985 / 36028797018963968)\<rfloor> = - 1"
  by (rule floor_log2_eq) simp_all

lemma float64_round_half:
  "float64_round (18014398509481985 / 36028797018963968) = 1 / 2"
  by (simp add: float64_round_def Let_def floor_log2_half py_round_def)

lemma sample_one_tenth_of_five:
  "sample example_permutation float64_mul float_one_tenth 10 example_X
     = Inr (example_X\<lparr>rows := []\<rparr>)"
proof -
  have m: "float64_mul float_one_tenth 5 = 1 / 2"
    by (simp only: float64_mul_def float_one_tenth_times_5 float64_round_half)
  have "py_round (1 / 2) = 0" by (simp add: py_round_def Let_def)
  then have n: "py_round (float64_mul float_one_tenth 5) = 0"
    by (simp only: m)
  show ?thesis
    by (simp add: sample_def Let_def example_X_length safe_indexing_def n)
qed

text \<open>
  The claim as the specification states it, with \<open>round(f \<times> n)\<close> of the product of the
  two numbers, fails at the script's own fraction on a frame of five rows. The float
  \<^verbatim>\<open>0.1\<close> is slightly more than one tenth, so \<open>f \<times> 5\<close> is slightly more than one half and
  rounds to 1, by Python's rounding and by rounding half up alike; the floating-point
  product is exactly one half, which Python rounds to the even neighbour 0, and the
  Sampler returns no row.
\<close>

theorem sampler_row_count_counterexample:
  "0 < float_one_tenth \<and> float_one_tenth \<le> 1
   \<and> \<not> isl (sample example_permutation float64_mul float_one_tenth 10 example_X)
   \<and> length (rows (projr (sample example_permutation float64_mul float_one_tenth 10 example_X))) = 0
   \<and> py_round (float_one_tenth * real (length (rows example_X))) = 1
   \<and> round (float_one_tenth * real (length (rows example_X))) = (1 :: int)"
proof -
  have a: "0 < float_one_tenth" "float_one_tenth \<le> 1"
    by (simp_all add: float_one_tenth_def)
  have b: "py_round (float_one_tenth * real (length (rows example_X))) = 1"
    by (simp add: example_X_length float_one_tenth_times_5 py_round_def Let_def)
  have c: "round (float_one_tenth * real (length (rows example_X))) = (1 :: int)"
    by (simp add: example_X_length float_one_tenth_times_5 round_def)
  show ?thesis using a b c by (simp add: sample_one_tenth_of_five)
qed

section \<open>Cleaner: no missing value, rows untouched\<close>

lemma dropna_rows: "rows (dropna df) = filter (\<lambda>r. \<forall>c \<in> set (columns df). snd r c \<noteq> NaN) (rows df)"
  by (simp add: dropna_def list_all_iff)

lemma dropna_columns: "columns (dropna df) = columns df"
  by (simp add: dropna_def)

text \<open>
  C8. For every frame, no row of the Cleaner's output has a missing value in any
  column of the frame; the output rows are a subsequence of the input rows, each with
  its index label and all its fields as they were; the columns are unchanged. Moreover
  every input row without a missing value is kept.
\<close>

theorem cleaner_no_missing_subset:
  "(\<forall>r \<in> set (rows (dropna df)). \<forall>c \<in> set (columns (dropna df)). snd r c \<noteq> NaN)
   \<and> subseq (rows (dropna df)) (rows df)
   \<and> columns (dropna df) = columns df
   \<and> (\<forall>r \<in> set (rows df). (\<forall>c \<in> set (columns df). snd r c \<noteq> NaN) \<longrightarrow> r \<in> set (rows (dropna df)))"
proof (intro conjI)
  show "\<forall>r \<in> set (rows (dropna df)). \<forall>c \<in> set (columns (dropna df)). snd r c \<noteq> NaN"
    by (simp add: dropna_rows dropna_columns)
  show "subseq (rows (dropna df)) (rows df)"
    by (simp add: dropna_rows)
  show "columns (dropna df) = columns df"
    by (rule dropna_columns)
  show "\<forall>r \<in> set (rows df). (\<forall>c \<in> set (columns df). snd r c \<noteq> NaN) \<longrightarrow> r \<in> set (rows (dropna df))"
    by (simp add: dropna_rows)
qed

lemma dropna_example:
  "map fst (rows (dropna example_flights)) = [0, 1, 3, 4, 5, 6, 8, 9]"
  by (simp add: dropna_def example_flights_def selected_columns_def example_row_def upt_10)

text \<open>
  On the example frame of ten rows, rows 2 and 7 have no air time and are the two rows
  removed; row 3 is kept, with its air time.
\<close>

theorem cleaner_no_missing_subset_witness:
  "example_row 3 \<in> set (rows (dropna example_flights))
   \<and> ''AIR_TIME'' \<in> set (columns (dropna example_flights))
   \<and> snd (example_row 3) ''AIR_TIME'' \<noteq> NaN
   \<and> subseq (rows (dropna example_flights)) (rows example_flights)
   \<and> columns (dropna example_flights) = columns example_flights
   \<and> map fst (rows (dropna example_flights)) = [0, 1, 3, 4, 5, 6, 8, 9]
   \<and> map fst (rows example_flights) = [0, 1, 2, 3, 4, 5, 6, 7, 8, 9]"
proof -
  note t = cleaner_no_missing_subset [of example_flights]
  have all: "map fst (rows example_flights) = [0, 1, 2, 3, 4, 5, 6, 7, 8, 9]"
    by (simp add: example_flights_def example_row_def upt_10)
  have m1: "example_row 3 \<in> set (rows example_flights)"
    by (simp add: example_flights_def upt_10)
  have m2: "\<forall>c \<in> set (columns example_flights). snd (example_row 3) c \<noteq> NaN"
    by (simp add: example_flights_def selected_columns_def example_row_def)
  have kept: "example_row 3 \<in> set (rows (dropna example_flights))"
    using t m1 m2 by blast
  have col: "''AIR_TIME'' \<in> set (columns (dropna example_flights))"
    by (simp add: dropna_columns example_flights_def selected_columns_def)
  have val: "snd (example_row 3) ''AIR_TIME'' \<noteq> NaN"
    using t kept col by blast
  have sub: "subseq (rows (dropna example_flights)) (rows example_flights)"
    and cols: "columns (dropna example_flights) = columns example_flights"
    using t by blast+
  show ?thesis
    by (rule conjI [OF kept conjI [OF col conjI [OF val conjI [OF sub conjI [OF cols
          conjI [OF dropna_example all]]]]]])
qed

section \<open>Labeler: threshold\<close>

lemma labeler_nums: "labeler (map Num ds) = Inr (map (\<lambda>d. Num (if 10 < d then 1 else 0)) ds)"
proof -
  have cell: "binarize (Num x) = Inr (Num (if 10 < x then 1 else 0))" for x
    by (simp add: binarize_def)
  have "labeler (map Num ds) = Inr (map (\<lambda>c. Num (if 10 < num_of c then 1 else 0)) (map Num ds))"
    unfolding labeler_def by (rule traverse_map_Inr) (auto simp: cell)
  then show ?thesis by (simp add: comp_def)
qed

lemma label_column_nums:
  assumes col: "get_column ''ARRIVAL_DELAY'' df = Inr (map Num ds)"
  shows "\<exists>df'. label_column df = Inr df'
        \<and> get_column ''ARRIVAL_DELAY'' df' = Inr (map (\<lambda>d. Num (if 10 < d then 1 else 0)) ds)
        \<and> columns df' = columns df
        \<and> map fst (rows df') = map fst (rows df)
        \<and> (\<forall>c. c \<noteq> ''ARRIVAL_DELAY'' \<longrightarrow> get_column c df' = get_column c df)"
proof -
  define labels where "labels = map (\<lambda>d. Num (if 10 < d then 1 else 0)) ds"
  define df' where "df' = set_column ''ARRIVAL_DELAY'' labels df"
  have len: "length labels = length (rows df)"
    using get_column_length [OF col] by (simp add: labels_def)
  have mem: "''ARRIVAL_DELAY'' \<in> set (columns df)"
    using col by (auto simp: get_column_def split: if_splits)
  have run: "label_column df = Inr df'"
    by (simp add: label_column_def col labeler_nums df'_def labels_def)
  have same: "get_column ''ARRIVAL_DELAY'' df' = Inr labels"
    unfolding df'_def using len mem by (rule get_set_same)
  have cols: "columns df' = columns df"
    using mem by (simp add: df'_def set_column_def)
  have idx: "map fst (rows df') = map fst (rows df)"
    unfolding df'_def using len by (rule set_column_index)
  have other: "\<forall>c. c \<noteq> ''ARRIVAL_DELAY'' \<longrightarrow> get_column c df' = get_column c df"
    using len by (simp add: df'_def get_set_other)
  show ?thesis using run same cols idx other unfolding labels_def by blast
qed

text \<open>
  C2. For every delay value \<open>d\<close>, negative ones included, the Labeler gives label 1 if
  and only if \<open>d > 10\<close>; a delay of exactly 10 gives label 0; a whole column of delays
  is labelled value by value; and on a frame whose delay column holds the numbers
  \<open>ds\<close>, the statement of the script succeeds and replaces that column by these labels,
  leaving the other columns, the column names and the index labels as they were.
\<close>

theorem labeler_threshold:
  "(binarize (Num d) = Inr (Num 1) \<longleftrightarrow> 10 < d)
   \<and> binarize (Num d) = Inr (Num (if 10 < d then 1 else 0))
   \<and> binarize (Num 10) = Inr (Num 0)
   \<and> labeler (map Num ds) = Inr (map (\<lambda>d. Num (if 10 < d then 1 else 0)) ds)
   \<and> (get_column ''ARRIVAL_DELAY'' df = Inr (map Num ds')
      \<longrightarrow> (\<exists>df'. label_column df = Inr df'
        \<and> get_column ''ARRIVAL_DELAY'' df' = Inr (map (\<lambda>d. Num (if 10 < d then 1 else 0)) ds')
        \<and> columns df' = columns df
        \<and> map fst (rows df') = map fst (rows df)
        \<and> (\<forall>c. c \<noteq> ''ARRIVAL_DELAY'' \<longrightarrow> get_column c df' = get_column c df)))"
proof -
  have cell: "binarize (Num x) = Inr (Num (if 10 < x then 1 else 0))" for x
    by (simp add: binarize_def)
  have frame: "get_column ''ARRIVAL_DELAY'' df = Inr (map Num ds')
      \<longrightarrow> (\<exists>df'. label_column df = Inr df'
        \<and> get_column ''ARRIVAL_DELAY'' df' = Inr (map (\<lambda>d. Num (if 10 < d then 1 else 0)) ds')
        \<and> columns df' = columns df
        \<and> map fst (rows df') = map fst (rows df)
        \<and> (\<forall>c. c \<noteq> ''ARRIVAL_DELAY'' \<longrightarrow> get_column c df' = get_column c df))"
    using label_column_nums by blast
  have first: "(binarize (Num d) = Inr (Num 1) \<longleftrightarrow> 10 < d)
   \<and> binarize (Num d) = Inr (Num (if 10 < d then 1 else 0))
   \<and> binarize (Num 10) = Inr (Num 0)
   \<and> labeler (map Num ds) = Inr (map (\<lambda>d. Num (if 10 < d then 1 else 0)) ds)"
    by (simp add: cell labeler_nums)
  from first frame show ?thesis by blast
qed

lemma example_delays:
  "get_column ''ARRIVAL_DELAY'' example_raw = Inr (map Num example_delay_values)"
  by (simp add: get_column_def example_raw_def selected_columns_def example_row_def upt_20
      example_delay_values_def)

text \<open>
  On the example frame of 20 rows, whose delays run from \<open>-5\<close> to 14: the rows with
  delays 11 to 14 get label 1, the row with delay 10 and all rows before it label 0.
\<close>

theorem labeler_threshold_witness:
  "get_column ''ARRIVAL_DELAY'' example_raw = Inr (map Num example_delay_values)
   \<and> (\<exists>df'. label_column example_raw = Inr df'
        \<and> get_column ''ARRIVAL_DELAY'' df'
            = Inr (map (\<lambda>d. Num (if 10 < d then 1 else 0)) example_delay_values)
        \<and> get_column ''ARRIVAL_DELAY'' df'
            = Inr [Num 0, Num 0, Num 0, Num 0, Num 0, Num 0, Num 0, Num 0, Num 0, Num 0,
                   Num 0, Num 0, Num 0, Num 0, Num 0, Num 0, Num 1, Num 1, Num 1, Num 1]
        \<and> columns df' = columns example_raw
        \<and> map fst (rows df') = map fst (rows example_raw)
        \<and> get_column ''AIRLINE'' df' = get_column ''AIRLINE'' example_raw)"
proof -
  note t = labeler_threshold [of 0 "[]" example_raw example_delay_values]
  note imp = t [THEN conjunct2, THEN conjunct2, THEN conjunct2, THEN conjunct2]
  from mp [OF imp example_delays] obtain df'
    where all: "label_column example_raw = Inr df'
        \<and> get_column ''ARRIVAL_DELAY'' df'
            = Inr (map (\<lambda>d. Num (if 10 < d then 1 else 0)) example_delay_values)
        \<and> columns df' = columns example_raw
        \<and> map fst (rows df') = map fst (rows example_raw)
        \<and> (\<forall>c. c \<noteq> ''ARRIVAL_DELAY'' \<longrightarrow> get_column c df' = get_column c example_raw)" ..
  note run = all [THEN conjunct1]
  note col = all [THEN conjunct2, THEN conjunct1]
  note cols = all [THEN conjunct2, THEN conjunct2, THEN conjunct1]
  note idx = all [THEN conjunct2, THEN conjunct2, THEN conjunct2, THEN conjunct1]
  note other = all [THEN conjunct2, THEN conjunct2, THEN conjunct2, THEN conjunct2]
  have ev: "get_column ''ARRIVAL_DELAY'' df'
            = Inr [Num 0, Num 0, Num 0, Num 0, Num 0, Num 0, Num 0, Num 0, Num 0, Num 0,
                   Num 0, Num 0, Num 0, Num 0, Num 0, Num 0, Num 1, Num 1, Num 1, Num 1]"
    unfolding col by (simp add: example_delay_values_def)
  have ne: "''AIRLINE'' \<noteq> ''ARRIVAL_DELAY''" by simp
  note air = mp [OF spec [OF other] ne]
  have "\<exists>df'. label_column example_raw = Inr df'
        \<and> get_column ''ARRIVAL_DELAY'' df'
            = Inr (map (\<lambda>d. Num (if 10 < d then 1 else 0)) example_delay_values)
        \<and> get_column ''ARRIVAL_DELAY'' df'
            = Inr [Num 0, Num 0, Num 0, Num 0, Num 0, Num 0, Num 0, Num 0, Num 0, Num 0,
                   Num 0, Num 0, Num 0, Num 0, Num 0, Num 0, Num 1, Num 1, Num 1, Num 1]
        \<and> columns df' = columns example_raw
        \<and> map fst (rows df') = map fst (rows example_raw)
        \<and> get_column ''AIRLINE'' df' = get_column ''AIRLINE'' example_raw"
    by (rule exI [of _ df'],
        rule conjI [OF run conjI [OF col conjI [OF ev conjI [OF cols conjI [OF idx air]]]]])
  with example_delays show ?thesis by (rule conjI)
qed

section \<open>Encoder: codes 1 to k\<close>

lemma set_unique: "set (unique xs) = set xs"
  by (induction xs) auto

lemma distinct_unique: "distinct (unique xs)"
  by (induction xs) (auto simp: set_unique)

lemma safe_sort_mset: "NaN \<notin> set u \<Longrightarrow> mset (safe_sort u) = mset u"
proof -
  assume nonan: "NaN \<notin> set u"
  have nums: "map Num (map num_of (filter is_Num u)) = filter is_Num u"
    by (induction u) auto
  have strs: "map Str (map str_of (filter is_Str u)) = filter is_Str u"
    by (induction u) auto
  have "mset (map Num (sort (map num_of (filter is_Num u)))) = mset (filter is_Num u)"
    using nums by (metis mset_map mset_sort)
  moreover have "mset (map Str (sort (map str_of (filter is_Str u)))) = mset (filter is_Str u)"
    using strs by (metis mset_map mset_sort)
  moreover have "mset (filter is_Num u) + mset (filter is_Str u) = mset u"
    using nonan
  proof (induction u)
    case Nil
    then show ?case by simp
  next
    case (Cons a u)
    then show ?case by (cases a) auto
  qed
  ultimately show ?thesis by (simp add: safe_sort_def)
qed

lemma categories_mset: "mset (categories vs) = mset (unique (filter (\<lambda>v. v \<noteq> NaN) vs))"
  unfolding categories_def by (rule safe_sort_mset) (simp add: set_unique)

lemma set_categories: "set (categories vs) = set vs - {NaN}"
proof -
  have "set (categories vs) = set (unique (filter (\<lambda>v. v \<noteq> NaN) vs))"
    using categories_mset [of vs] by (metis set_mset_mset)
  then show ?thesis by (auto simp: set_unique)
qed

lemma distinct_categories: "distinct (categories vs)"
  using categories_mset [of vs] distinct_unique by (metis mset_eq_imp_distinct_iff)

lemma length_categories: "length (categories vs) = card (set vs - {NaN})"
  using distinct_card [OF distinct_categories, of vs] by (simp add: set_categories)

lemma index_of_less: "x \<in> set xs \<Longrightarrow> index_of x xs < length xs"
  by (induction xs) auto

lemma nth_index_of: "x \<in> set xs \<Longrightarrow> xs ! index_of x xs = x"
  by (induction xs) auto

lemma index_of_nth: "distinct xs \<Longrightarrow> i < length xs \<Longrightarrow> index_of (xs ! i) xs = i"
proof (induction xs arbitrary: i)
  case Nil
  then show ?case by simp
next
  case (Cons a xs)
  then show ?case by (cases i) auto
qed

lemma index_of_image: "distinct xs \<Longrightarrow> (\<lambda>x. index_of x xs) ` set xs = {0..<length xs}"
proof (intro equalityI subsetI)
  fix i assume "i \<in> (\<lambda>x. index_of x xs) ` set xs"
  then show "i \<in> {0..<length xs}" by (auto simp: index_of_less)
next
  fix i assume d: "distinct xs" and "i \<in> {0..<length xs}"
  then have i: "i < length xs" by simp
  then have "index_of (xs ! i) xs = i" using d by (rule index_of_nth [rotated])
  moreover have "xs ! i \<in> set xs" using i by simp
  ultimately show "i \<in> (\<lambda>x. index_of x xs) ` set xs" by (metis imageI)
qed

lemma shift_image: "(\<lambda>i. int i + 1) ` {0..<n} = {1..int n}"
proof (intro equalityI subsetI)
  fix x assume "x \<in> (\<lambda>i. int i + 1) ` {0..<n}"
  then show "x \<in> {1..int n}" by auto
next
  fix x assume "x \<in> {1..int n}"
  then have "nat (x - 1) \<in> {0..<n}" and "x = int (nat (x - 1)) + 1" by auto
  then show "x \<in> (\<lambda>i. int i + 1) ` {0..<n}" by (rule rev_image_eqI)
qed

text \<open>One column: every value is replaced by its code, and the codes are \<open>1, ..., k\<close>.\<close>

lemma encode_codes:
  "encode vs = map (\<lambda>v. Num (of_int (category_code (categories vs) v + 1))) vs
   \<and> (\<lambda>v. category_code (categories vs) v + 1) ` (set vs - {NaN}) = {1..int (card (set vs - {NaN}))}
   \<and> inj_on (\<lambda>v. category_code (categories vs) v + 1) (set vs - {NaN})"
proof (intro conjI)
  let ?cats = "categories vs"
  let ?code = "\<lambda>v. category_code ?cats v + 1"
  show "encode vs = map (\<lambda>v. Num (of_int (?code v))) vs"
    by (simp add: encode_def cat_codes_def comp_def)
  have eq: "?code v = int (index_of v ?cats) + 1" if "v \<in> set vs - {NaN}" for v
    using that by (simp add: category_code_def)
  have "?code ` (set vs - {NaN}) = (\<lambda>v. int (index_of v ?cats) + 1) ` (set vs - {NaN})"
    using eq by (rule image_cong [OF refl])
  also have "\<dots> = (\<lambda>i. int i + 1) ` ((\<lambda>v. index_of v ?cats) ` set ?cats)"
    by (simp add: set_categories image_image)
  also have "\<dots> = (\<lambda>i. int i + 1) ` {0..<length ?cats}"
    by (simp add: index_of_image distinct_categories)
  also have "\<dots> = {1..int (card (set vs - {NaN}))}"
    by (simp add: shift_image length_categories)
  finally show "?code ` (set vs - {NaN}) = {1..int (card (set vs - {NaN}))}" .
  show "inj_on ?code (set vs - {NaN})"
  proof (rule inj_onI)
    fix a b assume a: "a \<in> set vs - {NaN}" and b: "b \<in> set vs - {NaN}" and "?code a = ?code b"
    then have "index_of a ?cats = index_of b ?cats" by (simp add: eq)
    moreover have "a \<in> set ?cats" "b \<in> set ?cats" using a b by (simp_all add: set_categories)
    ultimately show "a = b" by (metis nth_index_of)
  qed
qed

text \<open>The loop over the frame: each listed column is encoded once, from its own values.\<close>

lemma length_encode: "length (encode vs) = length vs"
  by (simp add: encode_def cat_codes_def)

lemma encode_column_Inr:
  "encode_column c df = Inr df1 \<Longrightarrow> \<exists>col. get_column c df = Inr col \<and> df1 = set_column c (encode col) df"
  by (auto simp: encode_column_def and_then_eq_Inr)

lemma encode_column_other:
  assumes "encode_column c df = Inr df1" and "d \<noteq> c"
  shows "get_column d df1 = get_column d df"
proof -
  from assms(1) obtain col where col: "get_column c df = Inr col" and df1: "df1 = set_column c (encode col) df"
    using encode_column_Inr by blast
  have "length (encode col) = length (rows df)" using col by (simp add: length_encode get_column_length)
  then show ?thesis using assms(2) by (simp add: df1 get_set_other)
qed

lemma encode_column_same:
  assumes "encode_column c df = Inr df1"
  shows "\<exists>col. get_column c df = Inr col \<and> get_column c df1 = Inr (encode col)"
proof -
  from assms obtain col where col: "get_column c df = Inr col" and df1: "df1 = set_column c (encode col) df"
    using encode_column_Inr by blast
  have len: "length (encode col) = length (rows df)" using col by (simp add: length_encode get_column_length)
  have "c \<in> set (columns df)" using col by (auto simp: get_column_def split: if_splits)
  with len have "get_column c df1 = Inr (encode col)" by (simp add: df1 get_set_same)
  with col show ?thesis by blast
qed

lemma encode_column_succeeds:
  "c \<in> set (columns df) \<Longrightarrow> \<exists>df1. encode_column c df = Inr df1 \<and> columns df1 = columns df"
  by (simp add: encode_column_def get_column_def set_column_def)

lemma encoder_succeeds:
  "set items \<subseteq> set (columns df) \<Longrightarrow> \<exists>df'. encoder items df = Inr df'"
proof (induction items arbitrary: df)
  case Nil
  then show ?case by simp
next
  case (Cons item items)
  then obtain df1 where 1: "encode_column item df = Inr df1" and 2: "columns df1 = columns df"
    using encode_column_succeeds [of item df] by auto
  have "set items \<subseteq> set (columns df1)" using Cons.prems 2 by simp
  then show ?case using Cons.IH [of df1] 1 by simp
qed

lemma encoder_other:
  "encoder items df = Inr df' \<Longrightarrow> d \<notin> set items \<Longrightarrow> get_column d df' = get_column d df"
proof (induction items arbitrary: df)
  case Nil
  then show ?case by simp
next
  case (Cons item items)
  from Cons.prems(1) obtain df1 where 1: "encode_column item df = Inr df1" and 2: "encoder items df1 = Inr df'"
    by (auto simp: and_then_eq_Inr)
  have "get_column d df' = get_column d df1" using Cons.IH [OF 2] Cons.prems(2) by simp
  also have "\<dots> = get_column d df" using encode_column_other [OF 1] Cons.prems(2) by simp
  finally show ?case .
qed

lemma encoder_column:
  "distinct items \<Longrightarrow> encoder items df = Inr df' \<Longrightarrow> c \<in> set items
   \<Longrightarrow> \<exists>col. get_column c df = Inr col \<and> get_column c df' = Inr (encode col)"
proof (induction items arbitrary: df)
  case Nil
  then show ?case by simp
next
  case (Cons item items)
  from Cons.prems(2) obtain df1 where 1: "encode_column item df = Inr df1" and 2: "encoder items df1 = Inr df'"
    by (auto simp: and_then_eq_Inr)
  show ?case
  proof (cases "c = item")
    case True
    then have "c \<notin> set items" using Cons.prems(1) by simp
    then have "get_column c df' = get_column c df1" using encoder_other [OF 2] by simp
    then show ?thesis using encode_column_same [OF 1] True by simp
  next
    case False
    then have "c \<in> set items" using Cons.prems(3) by simp
    moreover have "distinct items" using Cons.prems(1) by simp
    ultimately obtain col where "get_column c df1 = Inr col" "get_column c df' = Inr (encode col)"
      using Cons.IH [OF _ 2] by blast
    moreover have "get_column c df1 = get_column c df" using encode_column_other [OF 1 False] .
    ultimately show ?thesis by simp
  qed
qed

lemma distinct_cols: "distinct cols"
  by (simp add: cols_def)

text \<open>
  C3. For every frame that has the four listed fields, the Encoder runs, and for every
  listed field it replaces the column by the codes of its values: each distinct value
  that is not missing gets one code, different values get different codes, and the codes
  of a column with \<open>k\<close> distinct values are exactly \<open>1, ..., k\<close>. The codes are a function
  of the column alone (the categories in their canonical order), so running the Encoder
  again on the same frame gives the same codes.
\<close>

theorem encoder_codes:
  assumes "set cols \<subseteq> set (columns df)"
  shows "\<exists>df'. encoder cols df = Inr df'
     \<and> (\<forall>c \<in> set cols. \<exists>col.
           get_column c df = Inr col \<and> get_column c df' = Inr (encode col)
         \<and> encode col = map (\<lambda>v. Num (of_int (category_code (categories col) v + 1))) col
         \<and> (\<lambda>v. category_code (categories col) v + 1) ` (set col - {NaN})
               = {1..int (card (set col - {NaN}))}
         \<and> inj_on (\<lambda>v. category_code (categories col) v + 1) (set col - {NaN}))"
proof -
  from assms obtain df' where run: "encoder cols df = Inr df'"
    using encoder_succeeds by blast
  have "\<exists>col. get_column c df = Inr col \<and> get_column c df' = Inr (encode col)
         \<and> encode col = map (\<lambda>v. Num (of_int (category_code (categories col) v + 1))) col
         \<and> (\<lambda>v. category_code (categories col) v + 1) ` (set col - {NaN})
               = {1..int (card (set col - {NaN}))}
         \<and> inj_on (\<lambda>v. category_code (categories col) v + 1) (set col - {NaN})"
    if "c \<in> set cols" for c
  proof -
    from encoder_column [OF distinct_cols run that] obtain col
      where "get_column c df = Inr col" "get_column c df' = Inr (encode col)" by blast
    then show ?thesis using encode_codes [of col] by blast
  qed
  with run show ?thesis by blast
qed

lemma example_flights_cols: "set cols \<subseteq> set (columns example_flights)"
  by (simp add: cols_def example_flights_def selected_columns_def)

lemma example_airline_column:
  "get_column ''AIRLINE'' example_flights
   = Inr [Str ''AA'', Str ''DL'', Str ''UA'', Str ''AA'', Str ''DL'', Str ''UA'', Str ''AA'',
          Str ''DL'', Str ''UA'', Str ''AA'']"
  by (simp add: get_column_def example_flights_def selected_columns_def example_row_def upt_10)

lemma example_airline_codes:
  "encode [Str ''AA'', Str ''DL'', Str ''UA'', Str ''AA'', Str ''DL'', Str ''UA'', Str ''AA'',
           Str ''DL'', Str ''UA'', Str ''AA'']
   = [Num 1, Num 2, Num 3, Num 1, Num 2, Num 3, Num 1, Num 2, Num 3, Num 1]"
  by code_simp

text \<open>
  On the example frame of ten rows, whose categorical fields have three distinct values
  each, the airline column \<open>AA, DL, UA, AA, ...\<close> becomes \<open>1, 2, 3, 1, ...\<close>.
\<close>

theorem encoder_codes_witness:
  "set cols \<subseteq> set (columns example_flights)
   \<and> (\<exists>df'. encoder cols example_flights = Inr df'
     \<and> (\<forall>c \<in> set cols. \<exists>col.
           get_column c example_flights = Inr col \<and> get_column c df' = Inr (encode col)
         \<and> encode col = map (\<lambda>v. Num (of_int (category_code (categories col) v + 1))) col
         \<and> (\<lambda>v. category_code (categories col) v + 1) ` (set col - {NaN})
               = {1..int (card (set col - {NaN}))}
         \<and> inj_on (\<lambda>v. category_code (categories col) v + 1) (set col - {NaN})))
   \<and> map_sum id encode (get_column ''AIRLINE'' example_flights)
       = Inr [Num 1, Num 2, Num 3, Num 1, Num 2, Num 3, Num 1, Num 2, Num 3, Num 1]"
proof -
  have ev: "map_sum id encode (get_column ''AIRLINE'' example_flights)
       = Inr [Num 1, Num 2, Num 3, Num 1, Num 2, Num 3, Num 1, Num 2, Num 3, Num 1]"
    by (simp add: example_airline_column example_airline_codes)
  show ?thesis
    by (rule conjI [OF example_flights_cols
          conjI [OF encoder_codes [OF example_flights_cols] ev]])
qed

section \<open>Splitter: partition and test size\<close>

lemma ceil_quarter: "nat \<lceil>(1 / 4) * real n\<rceil> = (n + 3) div 4"
proof -
  have "(1 / 4) * real n = real_of_int (int n) / real_of_int 4" by simp
  then have "\<lceil>(1 / 4) * real n\<rceil> = - (- int n div 4)"
    by (simp only: ceiling_divide_eq_div)
  also have "\<dots> = (int n + 3) div 4" by presburger
  finally have "\<lceil>(1 / 4) * real n\<rceil> = int ((n + 3) div 4)" by (simp add: zdiv_int)
  then show ?thesis by simp
qed

lemma validate_quarter:
  "2 \<le> n \<Longrightarrow> validate_shuffle_split n (1 / 4) = Inr (n - (n + 3) div 4, (n + 3) div 4)"
  unfolding validate_shuffle_split_def Let_def ceil_quarter by auto

lemma validate_quarter_small:
  "n < 2 \<Longrightarrow> validate_shuffle_split n (1 / 4) = Inl (ValueError ''the resulting train set will be empty'')"
  unfolding validate_shuffle_split_def Let_def ceil_quarter by auto

lemma validate_shuffle_split_D:
  "validate_shuffle_split n ts = Inr (a, b) \<Longrightarrow> a = n - b \<and> b < n \<and> b = nat \<lceil>ts * real n\<rceil>"
  by (auto simp: validate_shuffle_split_def Let_def split: if_splits)

lemma train_test_split_D:
  "train_test_split permutation X y ts seed = Inr s
   \<Longrightarrow> length y = length (rows X) \<and> (\<exists>a b. validate_shuffle_split (length (rows X)) ts = Inr (a, b))"
  by (cases "validate_shuffle_split (length (rows X)) ts")
     (auto simp: train_test_split_def split: if_splits)

lemma train_test_split_run:
  assumes perm: "mset (permutation seed (length (rows X))) = mset [0..<length (rows X)]"
    and len: "length y = length (rows X)"
    and val: "validate_shuffle_split (length (rows X)) ts = Inr (a, b)"
  shows "\<exists>train test.
      train_test_split permutation X y ts seed
        = Inr \<lparr>X_train = X\<lparr>rows := map (\<lambda>i. rows X ! i) train\<rparr>,
               X_test = X\<lparr>rows := map (\<lambda>i. rows X ! i) test\<rparr>,
               y_train = map (\<lambda>i. y ! i) train, y_test = map (\<lambda>i. y ! i) test\<rparr>
      \<and> test @ train = permutation seed (length (rows X))
      \<and> length test = nat \<lceil>ts * real (length (rows X))\<rceil>"
proof -
  define n where "n = length (rows X)"
  define p where "p = permutation seed n"
  define train where "train = drop b p"
  define test where "test = take b p"
  have pm: "mset p = mset [0..<n]" using perm by (simp add: p_def n_def)
  have lp: "length p = n" and sp: "set p = {0..<n}"
    using pm by (rule perm_length, rule perm_set)
  from val have a: "a = n - b" and b: "b < n" and bc: "b = nat \<lceil>ts * real n\<rceil>"
    using validate_shuffle_split_D [of n ts a b] by (simp_all add: n_def)
  have sh: "shuffle_split permutation seed n a b = (train, test)"
    by (simp add: shuffle_split_def Let_def p_def [symmetric] train_def test_def lp a)
  have app: "test @ train = p" by (simp add: train_def test_def)
  have sub_tr: "\<forall>i \<in> set train. i < n" and sub_te: "\<forall>i \<in> set test. i < n"
    using sp app by (metis Un_iff atLeastLessThan_iff set_append)+
  have lte: "length test = b" using b by (simp add: test_def lp)
  have run: "train_test_split permutation X y ts seed
        = Inr \<lparr>X_train = X\<lparr>rows := map (\<lambda>i. rows X ! i) train\<rparr>,
               X_test = X\<lparr>rows := map (\<lambda>i. rows X ! i) test\<rparr>,
               y_train = map (\<lambda>i. y ! i) train, y_test = map (\<lambda>i. y ! i) test\<rparr>"
    using len val sh sub_tr sub_te
    by (simp add: train_test_split_def n_def [symmetric] safe_indexing_Inr)
  show ?thesis
    using run app lte unfolding p_def n_def bc by blast
qed

lemma train_test_split_rows:
  assumes perm: "mset (permutation seed (length (rows X))) = mset [0..<length (rows X)]"
    and run: "train_test_split permutation X y ts seed = Inr s"
  shows "mset (rows (X_train s)) + mset (rows (X_test s)) = mset (rows X)
         \<and> columns (X_train s) = columns X \<and> columns (X_test s) = columns X"
proof -
  from train_test_split_D [OF run] obtain a b
    where len: "length y = length (rows X)"
      and val: "validate_shuffle_split (length (rows X)) ts = Inr (a, b)" by blast
  from train_test_split_run [where permutation = permutation and seed = seed, OF perm len val] run
  obtain train test
    where s: "s = \<lparr>X_train = X\<lparr>rows := map (\<lambda>i. rows X ! i) train\<rparr>,
               X_test = X\<lparr>rows := map (\<lambda>i. rows X ! i) test\<rparr>,
               y_train = map (\<lambda>i. y ! i) train, y_test = map (\<lambda>i. y ! i) test\<rparr>"
      and app: "test @ train = permutation seed (length (rows X))" by auto
  have "mset (test @ train) = mset [0..<length (rows X)]" using perm app by simp
  then have "mset (map (\<lambda>i. rows X ! i) (test @ train)) = mset (rows X)"
    by (rule mset_map_nth_perm)
  then show ?thesis by (simp add: s add.commute)
qed

text \<open>The split of the script, with a test fraction of one quarter.\<close>

lemma train_test_split_quarter:
  assumes perm: "mset (permutation seed (length (rows X))) = mset [0..<length (rows X)]"
    and len: "length y = length (rows X)"
    and two: "2 \<le> length (rows X)"
  shows "\<exists>s train test.
      train_test_split permutation X y (1 / 4) seed = Inr s
      \<and> set train \<inter> set test = {} \<and> set train \<union> set test = {0..<length (rows X)}
      \<and> distinct train \<and> distinct test
      \<and> rows (X_train s) = map (\<lambda>i. rows X ! i) train \<and> rows (X_test s) = map (\<lambda>i. rows X ! i) test
      \<and> y_train s = map (\<lambda>i. y ! i) train \<and> y_test s = map (\<lambda>i. y ! i) test
      \<and> mset (rows (X_train s)) + mset (rows (X_test s)) = mset (rows X)
      \<and> length (rows (X_test s)) = nat \<lceil>(1 / 4) * real (length (rows X))\<rceil>"
proof -
  define n where "n = length (rows X)"
  have val: "validate_shuffle_split (length (rows X)) (1 / 4) = Inr (n - (n + 3) div 4, (n + 3) div 4)"
    using two by (simp add: validate_quarter n_def)
  from train_test_split_run [where permutation = permutation and seed = seed, OF perm len val]
  obtain train test
    where run: "train_test_split permutation X y (1 / 4) seed
        = Inr \<lparr>X_train = X\<lparr>rows := map (\<lambda>i. rows X ! i) train\<rparr>,
               X_test = X\<lparr>rows := map (\<lambda>i. rows X ! i) test\<rparr>,
               y_train = map (\<lambda>i. y ! i) train, y_test = map (\<lambda>i. y ! i) test\<rparr>"
      and app: "test @ train = permutation seed (length (rows X))"
      and lte: "length test = nat \<lceil>(1 / 4) * real (length (rows X))\<rceil>" by blast
  define s where "s = \<lparr>X_train = X\<lparr>rows := map (\<lambda>i. rows X ! i) train\<rparr>,
               X_test = X\<lparr>rows := map (\<lambda>i. rows X ! i) test\<rparr>,
               y_train = map (\<lambda>i. y ! i) train, y_test = map (\<lambda>i. y ! i) test\<rparr>"
  have pm: "mset (test @ train) = mset [0..<length (rows X)]" using perm app by simp
  have dp: "distinct (test @ train)" and sp: "set (test @ train) = {0..<length (rows X)}"
    using pm by (rule perm_distinct, rule perm_set)
  have disj: "set train \<inter> set test = {}" using dp by auto
  have un: "set train \<union> set test = {0..<length (rows X)}" using sp by auto
  have dtr: "distinct train" and dte: "distinct test" using dp by simp_all
  have ms: "mset (rows (X_train s)) + mset (rows (X_test s)) = mset (rows X)"
    using train_test_split_rows [where permutation = permutation and seed = seed, OF perm run]
    by (simp add: s_def)
  show ?thesis
    using run disj un dtr dte ms lte
    by (intro exI [of _ s] exI [of _ train] exI [of _ test]) (simp add: s_def)
qed

lemma train_test_split_small:
  assumes len: "length y = length (rows X)" and small: "length (rows X) < 2"
  shows "train_test_split permutation X y (1 / 4) seed
         = Inl (ValueError ''the resulting train set will be empty'')"
  using len small by (simp add: train_test_split_def validate_quarter_small)

text \<open>
  C1, as the code has it. For every frame handed to the Splitter with its label
  vector: when the frame has at least two rows, the split succeeds; the train and the
  test positions are disjoint and together are all the positions of the frame, none
  repeated; the two partitions hold the rows and labels at those positions, so every row
  is in exactly one of them; and the test partition has \<open>ceil(0.25 \<times> row_count)\<close> rows.
  When the frame has fewer than two rows, the split raises \<^verbatim>\<open>ValueError\<close>, because
  the train partition would be empty.
\<close>

theorem splitter_partition:
  assumes len: "length y = length (rows X)"
  shows "(mset (permutation seed (length (rows X))) = mset [0..<length (rows X)]
          \<and> 2 \<le> length (rows X)
        \<longrightarrow> (\<exists>s train test.
            train_test_split permutation X y (1 / 4) seed = Inr s
          \<and> set train \<inter> set test = {} \<and> set train \<union> set test = {0..<length (rows X)}
          \<and> distinct train \<and> distinct test
          \<and> rows (X_train s) = map (\<lambda>i. rows X ! i) train
          \<and> rows (X_test s) = map (\<lambda>i. rows X ! i) test
          \<and> y_train s = map (\<lambda>i. y ! i) train \<and> y_test s = map (\<lambda>i. y ! i) test
          \<and> mset (rows (X_train s)) + mset (rows (X_test s)) = mset (rows X)
          \<and> length (rows (X_test s)) = nat \<lceil>(1 / 4) * real (length (rows X))\<rceil>))
       \<and> (length (rows X) < 2
        \<longrightarrow> train_test_split permutation X y (1 / 4) seed
            = Inl (ValueError ''the resulting train set will be empty''))"
proof (intro conjI impI)
  assume "mset (permutation seed (length (rows X))) = mset [0..<length (rows X)]
          \<and> 2 \<le> length (rows X)"
  then have perm: "mset (permutation seed (length (rows X))) = mset [0..<length (rows X)]"
    and two: "2 \<le> length (rows X)" by simp_all
  from perm len two show "\<exists>s train test.
            train_test_split permutation X y (1 / 4) seed = Inr s
          \<and> set train \<inter> set test = {} \<and> set train \<union> set test = {0..<length (rows X)}
          \<and> distinct train \<and> distinct test
          \<and> rows (X_train s) = map (\<lambda>i. rows X ! i) train
          \<and> rows (X_test s) = map (\<lambda>i. rows X ! i) test
          \<and> y_train s = map (\<lambda>i. y ! i) train \<and> y_test s = map (\<lambda>i. y ! i) test
          \<and> mset (rows (X_train s)) + mset (rows (X_test s)) = mset (rows X)
          \<and> length (rows (X_test s)) = nat \<lceil>(1 / 4) * real (length (rows X))\<rceil>"
    by (rule train_test_split_quarter)
next
  assume "length (rows X) < 2"
  with len show "train_test_split permutation X y (1 / 4) seed
            = Inl (ValueError ''the resulting train set will be empty'')"
    by (rule train_test_split_small)
qed

text \<open>
  On the example frame of five rows the split succeeds; on its first row alone, and on
  no row at all, it raises.
\<close>

theorem splitter_partition_witness:
  "length example_y = length (rows example_X)
   \<and> mset (example_permutation 10 (length (rows example_X))) = mset [0..<length (rows example_X)]
   \<and> 2 \<le> length (rows example_X)
   \<and> (\<exists>s train test.
      train_test_split example_permutation example_X example_y (1 / 4) 10 = Inr s
      \<and> set train \<inter> set test = {} \<and> set train \<union> set test = {0..<length (rows example_X)}
      \<and> distinct train \<and> distinct test
      \<and> rows (X_train s) = map (\<lambda>i. rows example_X ! i) train
      \<and> rows (X_test s) = map (\<lambda>i. rows example_X ! i) test
      \<and> y_train s = map (\<lambda>i. example_y ! i) train \<and> y_test s = map (\<lambda>i. example_y ! i) test
      \<and> mset (rows (X_train s)) + mset (rows (X_test s)) = mset (rows example_X)
      \<and> length (rows (X_test s)) = nat \<lceil>(1 / 4) * real (length (rows example_X))\<rceil>)
   \<and> length (take 1 example_y) = length (rows (example_X\<lparr>rows := take 1 (rows example_X)\<rparr>))
   \<and> length (rows (example_X\<lparr>rows := take 1 (rows example_X)\<rparr>)) < 2
   \<and> train_test_split example_permutation (example_X\<lparr>rows := take 1 (rows example_X)\<rparr>)
        (take 1 example_y) (1 / 4) 10
      = Inl (ValueError ''the resulting train set will be empty'')
   \<and> train_test_split example_permutation (example_X\<lparr>rows := []\<rparr>) [] (1 / 4) 10
      = Inl (ValueError ''the resulting train set will be empty'')"
proof -
  have h1: "mset (example_permutation 10 (length (rows example_X))) = mset [0..<length (rows example_X)]"
    by (rule example_permutation_perm)
  have h2: "length example_y = length (rows example_X)"
    by (simp add: example_X_length example_y_length)
  have h3: "2 \<le> length (rows example_X)"
    by (simp add: example_X_length)
  have big: "\<exists>s train test.
      train_test_split example_permutation example_X example_y (1 / 4) 10 = Inr s
      \<and> set train \<inter> set test = {} \<and> set train \<union> set test = {0..<length (rows example_X)}
      \<and> distinct train \<and> distinct test
      \<and> rows (X_train s) = map (\<lambda>i. rows example_X ! i) train
      \<and> rows (X_test s) = map (\<lambda>i. rows example_X ! i) test
      \<and> y_train s = map (\<lambda>i. example_y ! i) train \<and> y_test s = map (\<lambda>i. example_y ! i) test
      \<and> mset (rows (X_train s)) + mset (rows (X_test s)) = mset (rows example_X)
      \<and> length (rows (X_test s)) = nat \<lceil>(1 / 4) * real (length (rows example_X))\<rceil>"
    using splitter_partition [where permutation = example_permutation and seed = 10, OF h2] h1 h3
    by blast
  have k1: "length (take 1 example_y) = length (rows (example_X\<lparr>rows := take 1 (rows example_X)\<rparr>))"
    by (simp add: example_X_length example_y_length)
  have k2: "length (rows (example_X\<lparr>rows := take 1 (rows example_X)\<rparr>)) < 2"
    by (simp add: example_X_length)
  have one: "train_test_split example_permutation (example_X\<lparr>rows := take 1 (rows example_X)\<rparr>)
        (take 1 example_y) (1 / 4) 10
      = Inl (ValueError ''the resulting train set will be empty'')"
    using splitter_partition [where permutation = example_permutation and seed = 10, OF k1] k2
    by blast
  have z1: "length ([] :: cell list) = length (rows (example_X\<lparr>rows := []\<rparr>))"
    by simp
  have none: "train_test_split example_permutation (example_X\<lparr>rows := []\<rparr>) [] (1 / 4) 10
      = Inl (ValueError ''the resulting train set will be empty'')"
    using splitter_partition [where permutation = example_permutation and seed = 10, OF z1]
    by simp
  show ?thesis
    by (rule conjI [OF h2 conjI [OF h1 conjI [OF h3 conjI [OF big conjI [OF k1 conjI [OF k2
          conjI [OF one none]]]]]]])
qed

text \<open>
  The claim as the specification states it, with a test size of \<open>round(0.25 \<times> row_count)\<close>,
  fails on a frame of five rows: the split succeeds and the test partition has two rows,
  while 1.25 rounds to 1 (by Python's rounding and by rounding half up alike). On a
  frame of one row the split raises, because the train partition would be empty.
\<close>

theorem splitter_test_size_counterexample:
  "\<not> isl (train_test_split example_permutation example_X example_y (1 / 4) 10)
   \<and> length (rows (X_test (projr (train_test_split example_permutation example_X example_y (1 / 4) 10)))) = 2
   \<and> py_round ((1 / 4) * real (length (rows example_X))) = 1
   \<and> round ((1 / 4) * real (length (rows example_X))) = (1 :: int)
   \<and> train_test_split example_permutation (example_X\<lparr>rows := take 1 (rows example_X)\<rparr>)
        (take 1 example_y) (1 / 4) 10
      = Inl (ValueError ''the resulting train set will be empty'')"
proof -
  have h1: "mset (example_permutation 10 (length (rows example_X))) = mset [0..<length (rows example_X)]"
    by (rule example_permutation_perm)
  have h2: "length example_y = length (rows example_X)"
    by (simp add: example_X_length example_y_length)
  have h3: "2 \<le> length (rows example_X)"
    by (simp add: example_X_length)
  from train_test_split_quarter [where permutation = example_permutation and seed = 10, OF h1 h2 h3]
  obtain s where run: "train_test_split example_permutation example_X example_y (1 / 4) 10 = Inr s"
    and sz: "length (rows (X_test s)) = nat \<lceil>(1 / 4) * real (length (rows example_X))\<rceil>" by blast
  have two: "length (rows (X_test s)) = 2"
    unfolding sz ceil_quarter by (simp add: example_X_length)
  have r1: "py_round ((1 / 4) * real (length (rows example_X))) = 1"
    by (simp add: example_X_length py_round_def Let_def)
  have r2: "round ((1 / 4) * real (length (rows example_X))) = (1 :: int)"
    by (simp add: example_X_length round_def)
  have one: "train_test_split example_permutation (example_X\<lparr>rows := take 1 (rows example_X)\<rparr>)
        (take 1 example_y) (1 / 4) 10
      = Inl (ValueError ''the resulting train set will be empty'')"
    by (simp add: train_test_split_def example_X_length example_y_length validate_quarter_small)
  show ?thesis using two r1 r2 one by (simp add: run)
qed

section \<open>The Encoder runs on the whole frame, before the Splitter\<close>

lemma drop_column_other:
  assumes "drop_column name df = Inr X" and "c \<noteq> name"
  shows "get_column c X = get_column c df"
proof -
  from assms(1) have X: "X = \<lparr>columns = filter (\<lambda>c. c \<noteq> name) (columns df),
      rows = map (restrict_row (filter (\<lambda>c. c \<noteq> name) (columns df))) (rows df)\<rparr>"
    by (auto simp: drop_column_def Let_def split: if_splits)
  show ?thesis using assms(2) by (simp add: X get_column_def restrict_row_def comp_def)
qed

lemma drop_column_index:
  "drop_column name df = Inr X \<Longrightarrow> map fst (rows X) = map fst (rows df)"
  by (auto simp: drop_column_def Let_def restrict_row_def comp_def split: if_splits)

lemma encode_column_index:
  assumes "encode_column c df = Inr df1"
  shows "map fst (rows df1) = map fst (rows df) \<and> columns df1 = columns df"
proof -
  from assms obtain col where col: "get_column c df = Inr col" and df1: "df1 = set_column c (encode col) df"
    using encode_column_Inr by blast
  have len: "length (encode col) = length (rows df)" using col by (simp add: length_encode get_column_length)
  have "c \<in> set (columns df)" using col by (auto simp: get_column_def split: if_splits)
  then have "columns df1 = columns df" by (simp add: df1 set_column_def)
  then show ?thesis using len by (simp add: df1 set_column_index)
qed

lemma encoder_index:
  "encoder items df = Inr df' \<Longrightarrow> map fst (rows df') = map fst (rows df) \<and> columns df' = columns df"
proof (induction items arbitrary: df)
  case Nil
  then show ?case by simp
next
  case (Cons item items)
  from Cons.prems obtain df1 where 1: "encode_column item df = Inr df1" and 2: "encoder items df1 = Inr df'"
    by (auto simp: and_then_eq_Inr)
  show ?case using Cons.IH [OF 2] encode_column_index [OF 1] by simp
qed

lemma cols_not_label: "c \<in> set cols \<Longrightarrow> c \<noteq> ''ARRIVAL_DELAY''"
  by (simp add: cols_def) blast

text \<open>
  C4. In every run of the script that reaches the end of the split, the frame the
  Splitter partitions is the Encoder's output on the whole cleaned and labelled frame:
  for each categorical field, its column in the Splitter's input is the encoding of the
  entire column, so the code map is built from the values of all rows; the rows keep
  their index labels; and the train and test partitions together hold exactly the rows
  of that encoded frame. The Splitter is only ever applied to the encoded frame.
\<close>

theorem encoder_before_splitter:
  assumes run: "pipeline permutation float_mul raw = Inr s"
    and perm: "\<forall>n. mset (permutation 10 n) = mset [0..<n]"
  shows "\<exists>labelled data X.
        clean_and_label permutation float_mul raw = Inr labelled
      \<and> encoder cols labelled = Inr data
      \<and> drop_column ''ARRIVAL_DELAY'' data = Inr X
      \<and> (\<forall>c \<in> set cols. \<exists>col. get_column c labelled = Inr col \<and> get_column c X = Inr (encode col))
      \<and> map fst (rows X) = map fst (rows labelled)
      \<and> mset (rows (X_train s)) + mset (rows (X_test s)) = mset (rows X)
      \<and> columns (X_train s) = columns X \<and> columns (X_test s) = columns X"
proof -
  from run obtain labelled data
    where 1: "clean_and_label permutation float_mul raw = Inr labelled"
      and 2: "encoder cols labelled = Inr data"
      and 3: "split_data permutation data = Inr s"
    by (auto simp: pipeline_def and_then_eq_Inr)
  from 3 obtain X y
    where 4: "drop_column ''ARRIVAL_DELAY'' data = Inr X"
      and 5: "train_test_split permutation X y (1 / 4) 10 = Inr s"
    by (auto simp: split_data_def and_then_eq_Inr)
  have enc: "\<exists>col. get_column c labelled = Inr col \<and> get_column c X = Inr (encode col)"
    if c: "c \<in> set cols" for c
  proof -
    from encoder_column [OF distinct_cols 2 c] obtain col
      where "get_column c labelled = Inr col" "get_column c data = Inr (encode col)" by blast
    moreover have "get_column c X = get_column c data"
      using drop_column_other [OF 4] cols_not_label [OF c] by simp
    ultimately show ?thesis by simp
  qed
  have idx: "map fst (rows X) = map fst (rows labelled)"
    using drop_column_index [OF 4] encoder_index [OF 2] by simp
  have pm: "mset (permutation 10 (length (rows X))) = mset [0..<length (rows X)]"
    using perm by simp
  note sp = train_test_split_rows [where permutation = permutation and seed = 10, OF pm 5]
  show ?thesis using 1 2 4 enc idx sp by blast
qed

lemma clean_and_label_example:
  "\<exists>labelled. clean_and_label example_permutation (*) example_raw = Inr labelled
     \<and> columns labelled = selected_columns \<and> length (rows labelled) = 2
     \<and> get_column ''AIRLINE'' labelled = Inr [Str ''DL'', Str ''AA'']"
  unfolding clean_and_label_def sample_example
  by (simp add: select_columns_def example_raw_def selected_columns_def dropna_def restrict_row_def
      example_row_def label_column_def get_column_def labeler_def binarize_def set_column_def)

lemma example_permutation_2: "example_permutation 10 2 = [1, 0]"
  by code_simp

lemma encode_DL_AA: "encode [Str ''DL'', Str ''AA''] = [Num 2, Num 1]"
  by code_simp

lemma split_of_two:
  assumes two: "length (rows X) = 2" and len: "length y = 2"
  shows "\<exists>s. train_test_split example_permutation X y (1 / 4) 10 = Inr s
           \<and> rows (X_train s) = [rows X ! 0] \<and> rows (X_test s) = [rows X ! 1]"
proof -
  have h1: "mset (example_permutation 10 (length (rows X))) = mset [0..<length (rows X)]"
    by (rule example_permutation_perm)
  have h2: "length y = length (rows X)" using two len by simp
  have val: "validate_shuffle_split (length (rows X)) (1 / 4) = Inr (1, 1)"
    using validate_quarter [of 2] by (simp add: two)
  from train_test_split_run [where permutation = example_permutation and seed = 10, OF h1 h2 val]
  obtain train test
    where run: "train_test_split example_permutation X y (1 / 4) 10
        = Inr \<lparr>X_train = X\<lparr>rows := map (\<lambda>i. rows X ! i) train\<rparr>,
               X_test = X\<lparr>rows := map (\<lambda>i. rows X ! i) test\<rparr>,
               y_train = map (\<lambda>i. y ! i) train, y_test = map (\<lambda>i. y ! i) test\<rparr>"
      and app: "test @ train = example_permutation 10 (length (rows X))"
      and lte: "length test = nat \<lceil>(1 / 4) * real (length (rows X))\<rceil>" by blast
  have "length test = 1" unfolding lte ceil_quarter by (simp add: two)
  moreover have "test @ train = [1, 0]" using app by (simp add: two example_permutation_2)
  ultimately have "test = [1]" "train = [0]"
    by (cases test; cases train; simp)+
  then show ?thesis using run by simp
qed

text \<open>
  On the example frame of 20 rows: rows 19 and 18 are sampled, both stay after cleaning,
  their airlines \<open>DL\<close> and \<open>AA\<close> are encoded \<open>2\<close> and \<open>1\<close> on the whole frame,
  and the split then puts the first row in the train partition and the second in the
  test partition. The only train row carries code 2: code 1 belongs to a value that
  occurs in the test partition alone.
\<close>

theorem encoder_before_splitter_witness:
  "(\<forall>n. mset (example_permutation 10 n) = mset [0..<n])
   \<and> (\<exists>s labelled data X.
        pipeline example_permutation (*) example_raw = Inr s
      \<and> clean_and_label example_permutation (*) example_raw = Inr labelled
      \<and> encoder cols labelled = Inr data
      \<and> drop_column ''ARRIVAL_DELAY'' data = Inr X
      \<and> (\<forall>c \<in> set cols. \<exists>col. get_column c labelled = Inr col \<and> get_column c X = Inr (encode col))
      \<and> map fst (rows X) = map fst (rows labelled)
      \<and> mset (rows (X_train s)) + mset (rows (X_test s)) = mset (rows X)
      \<and> columns (X_train s) = columns X \<and> columns (X_test s) = columns X
      \<and> get_column ''AIRLINE'' labelled = Inr [Str ''DL'', Str ''AA'']
      \<and> get_column ''AIRLINE'' X = Inr [Num 2, Num 1]
      \<and> rows (X_train s) = [rows X ! 0] \<and> rows (X_test s) = [rows X ! 1])"
proof -
  have perm: "\<forall>n. mset (example_permutation 10 n) = mset [0..<n]"
    by (simp add: example_permutation_perm)
  from clean_and_label_example obtain labelled
    where 1: "clean_and_label example_permutation (*) example_raw = Inr labelled"
      and lc: "columns labelled = selected_columns" and ll: "length (rows labelled) = 2"
      and air: "get_column ''AIRLINE'' labelled = Inr [Str ''DL'', Str ''AA'']" by blast
  have "set cols \<subseteq> set (columns labelled)"
    by (simp add: lc cols_def selected_columns_def)
  then obtain data where 2: "encoder cols labelled = Inr data"
    using encoder_succeeds by blast
  have dc: "columns data = selected_columns" and di: "map fst (rows data) = map fst (rows labelled)"
    using encoder_index [OF 2] lc by simp_all
  have dl: "length (rows data) = 2" using di ll by (metis length_map)
  have lab: "''ARRIVAL_DELAY'' \<in> set (columns data)"
    by (simp add: dc selected_columns_def)
  then obtain X where 4: "drop_column ''ARRIVAL_DELAY'' data = Inr X"
    by (simp add: drop_column_def Let_def)
  have xl: "length (rows X) = 2" using drop_column_index [OF 4] dl by (metis length_map)
  obtain y where 5: "get_column ''ARRIVAL_DELAY'' data = Inr y"
    using lab by (simp add: get_column_def)
  have yl: "length y = 2" using get_column_length [OF 5] dl by simp
  from split_of_two [OF xl yl] obtain s
    where 6: "train_test_split example_permutation X y (1 / 4) 10 = Inr s"
      and tr: "rows (X_train s) = [rows X ! 0]" and te: "rows (X_test s) = [rows X ! 1]" by blast
  have run: "pipeline example_permutation (*) example_raw = Inr s"
    by (simp add: pipeline_def split_data_def 1 2 4 5 6)
  from encoder_before_splitter [OF run perm] obtain labelled' data' X'
    where a: "clean_and_label example_permutation (*) example_raw = Inr labelled'"
      and b: "encoder cols labelled' = Inr data'"
      and c: "drop_column ''ARRIVAL_DELAY'' data' = Inr X'"
      and rest: "(\<forall>c \<in> set cols. \<exists>col. get_column c labelled' = Inr col \<and> get_column c X' = Inr (encode col))"
        "map fst (rows X') = map fst (rows labelled')"
        "mset (rows (X_train s)) + mset (rows (X_test s)) = mset (rows X')"
        "columns (X_train s) = columns X'" "columns (X_test s) = columns X'"
    by blast
  have e1: "labelled' = labelled" using a 1 by simp
  have e2: "data' = data" using b 2 e1 by simp
  have e3: "X' = X" using c 4 e2 by simp
  have "''AIRLINE'' \<in> set cols" by (simp add: cols_def)
  with rest(1) obtain col where "get_column ''AIRLINE'' labelled = Inr col"
      "get_column ''AIRLINE'' X = Inr (encode col)"
    unfolding e1 e3 by blast
  with air have codes: "get_column ''AIRLINE'' X = Inr [Num 2, Num 1]"
    by (simp add: encode_DL_AA)
  have "\<exists>s labelled data X.
        pipeline example_permutation (*) example_raw = Inr s
      \<and> clean_and_label example_permutation (*) example_raw = Inr labelled
      \<and> encoder cols labelled = Inr data
      \<and> drop_column ''ARRIVAL_DELAY'' data = Inr X
      \<and> (\<forall>c \<in> set cols. \<exists>col. get_column c labelled = Inr col \<and> get_column c X = Inr (encode col))
      \<and> map fst (rows X) = map fst (rows labelled)
      \<and> mset (rows (X_train s)) + mset (rows (X_test s)) = mset (rows X)
      \<and> columns (X_train s) = columns X \<and> columns (X_test s) = columns X
      \<and> get_column ''AIRLINE'' labelled = Inr [Str ''DL'', Str ''AA'']
      \<and> get_column ''AIRLINE'' X = Inr [Num 2, Num 1]
      \<and> rows (X_train s) = [rows X ! 0] \<and> rows (X_test s) = [rows X ! 1]"
    using run 1 2 4 rest [unfolded e1 e3] air codes tr te
    by (intro exI [of _ s] exI [of _ labelled] exI [of _ data] exI [of _ X]) simp
  with perm show ?thesis by (rule conjI)
qed

section \<open>Evaluator: invariance under increasing transforms of the scores\<close>

lemma insort_key_strict_mono:
  "strict_mono g \<Longrightarrow> insort_key (\<lambda>p. g (fst p)) x xs = insort_key fst x xs"
  by (induction xs) (simp_all add: strict_mono_less_eq)

lemma sort_key_strict_mono:
  "strict_mono g \<Longrightarrow> sort_key (\<lambda>p. g (fst p)) xs = sort_key fst xs"
  by (induction xs) (simp_all add: insort_key_strict_mono)

lemma insort_key_apfst:
  "insort_key fst (apfst g x) (map (apfst g) xs) = map (apfst g) (insort_key (\<lambda>p. g (fst p)) x xs)"
  by (induction xs) simp_all

lemma sort_key_apfst:
  "sort_key fst (map (apfst g) xs) = map (apfst g) (sort_key (\<lambda>p. g (fst p)) xs)"
  by (induction xs) (simp_all add: insort_key_apfst)

lemma clf_points_apfst:
  "inj g \<Longrightarrow> clf_points fps tps (map (apfst g) xs) = clf_points fps tps xs"
  by (induction fps tps xs rule: clf_points.induct) (simp_all add: Let_def inj_eq)

lemma binary_clf_curve_strict_mono:
  assumes "strict_mono g"
  shows "binary_clf_curve y (map g s) = binary_clf_curve y s"
proof -
  have "zip (map g s) y = map (apfst g) (zip s y)"
    by (simp add: zip_map1 apfst_def map_prod_def)
  then have "rev (sort_key fst (zip (map g s) y)) = map (apfst g) (rev (sort_key fst (zip s y)))"
    using assms by (simp add: sort_key_apfst sort_key_strict_mono rev_map)
  moreover have "inj g" using assms by (rule strict_mono_imp_inj_on)
  ultimately show ?thesis by (simp add: binary_clf_curve_def clf_points_apfst)
qed

text \<open>
  C7. For every label vector, every score vector and every strictly increasing \<open>g\<close>, the
  Evaluator's result on the transformed scores is its result on the scores: the same AUC
  when the labels have both classes, the same exception otherwise.
\<close>

theorem auc_invariant_under_strict_mono:
  assumes "strict_mono g"
  shows "roc_auc_score y_true (map g y_score) = roc_auc_score y_true y_score"
proof -
  have "roc_curve y (map g y_score) = roc_curve y y_score" for y
    using assms by (simp add: roc_curve_def binary_clf_curve_strict_mono)
  then show ?thesis by (simp add: roc_auc_score_def cong: if_cong)
qed

lemma example_auc: "roc_auc_score example_y example_scores = Inr (Num (5 / 6))"
  by code_simp

text \<open>
  On the example labels and scores, whose AUC is five sixths, with the transform
  \<open>x \<mapsto> 2 x + 1\<close>.
\<close>

theorem auc_invariant_under_strict_mono_witness:
  "strict_mono (\<lambda>x :: real. 2 * x + 1)
   \<and> roc_auc_score example_y (map (\<lambda>x. 2 * x + 1) example_scores)
       = roc_auc_score example_y example_scores
   \<and> roc_auc_score example_y example_scores = Inr (Num (5 / 6))"
proof -
  have h: "strict_mono (\<lambda>x :: real. 2 * x + 1)"
    by (simp add: strict_mono_def)
  show ?thesis
    by (rule conjI [OF h conjI [OF auc_invariant_under_strict_mono [OF h] example_auc]])
qed

section \<open>Evaluator: the curve of a two-class vector\<close>

lemma clf_points_last:
  "xs \<noteq> [] \<Longrightarrow> clf_points fps tps xs \<noteq> []
     \<and> last (clf_points fps tps xs)
         = (fps + length (filter (\<lambda>x. \<not> snd x) xs), tps + length (filter snd xs))"
  by (induction fps tps xs rule: clf_points.induct) (auto simp: Let_def)

lemma clf_points_sorted:
  "sorted (map fst (clf_points fps tps xs))
   \<and> (\<forall>p \<in> set (clf_points fps tps xs). fps \<le> fst p \<and> fps + tps < fst p + snd p)"
proof (induction fps tps xs rule: clf_points.induct)
  case (1 fps tps)
  then show ?case by simp
next
  case (2 fps tps s y)
  then show ?case by simp
next
  case (3 fps tps s y s' y' rest)
  then show ?case by (fastforce simp: Let_def)
qed

lemma interior_points_subseq:
  "2 \<le> length ps \<Longrightarrow> subseq (interior_points ps @ [last ps]) (tl ps)"
proof (induction ps rule: interior_points.induct)
  case (1 p q r rest)
  then have "subseq (interior_points (q # r # rest) @ [last (q # r # rest)]) (r # rest)" by simp
  then show ?case by auto
qed simp_all

lemma drop_intermediate_subseq: "subseq (drop_intermediate ps) ps"
proof (cases "2 < length ps")
  case True
  then have "subseq (interior_points ps @ [last ps]) (tl ps)" by (simp add: interior_points_subseq)
  then have "subseq (hd ps # interior_points ps @ [last ps]) (hd ps # tl ps)" by (rule subseq_Cons2)
  moreover have "ps \<noteq> []" using True by auto
  ultimately show ?thesis using True by (simp add: drop_intermediate_def)
next
  case False
  then show ?thesis by (simp add: drop_intermediate_def)
qed

lemma drop_intermediate_last:
  "ps \<noteq> [] \<Longrightarrow> drop_intermediate ps \<noteq> [] \<and> last (drop_intermediate ps) = last ps"
  by (simp add: drop_intermediate_def)

lemma subseq_sorted: "subseq xs ys \<Longrightarrow> sorted ys \<Longrightarrow> sorted xs"
  by (metis subseq_conv_nths sorted_nths)

lemma subseq_set: "subseq xs ys \<Longrightarrow> set xs \<subseteq> set ys"
  by (metis subseq_conv_nths in_set_nthsD subsetI)

lemma diffs_sorted: "sorted xs \<Longrightarrow> \<not> list_ex (\<lambda>d. d < 0) (diffs xs)"
  by (induction xs rule: diffs.induct) auto

lemma sorted_map_mono:
  fixes f :: "'a::linorder \<Rightarrow> 'b::linorder"
  shows "(\<And>a b. a \<le> b \<Longrightarrow> f a \<le> f b) \<Longrightarrow> sorted xs \<Longrightarrow> sorted (map f xs)"
  by (induction xs) auto

text \<open>
  With a positive and a negative sample and one score per label, the curve is defined
  (both totals are positive), has at least two points, and its false-positive rates do
  not decrease, so the trapezoidal rule returns an area.
\<close>

lemma roc_curve_defined:
  assumes len: "length y_score = length y"
    and pos: "True \<in> set y" and neg: "False \<in> set y"
  shows "\<exists>pts area. roc_curve y y_score = Some pts \<and> metrics_auc pts = Inr area"
proof -
  define xs where "xs = rev (sort_key fst (zip y_score y))"
  define cp where "cp = clf_points 0 0 xs"
  define ps where "ps = map (\<lambda>(f, t). (int f, int t)) cp"
  define pts where "pts = drop_intermediate ps"
  have sx: "set xs = set (zip y_score y)" by (simp add: xs_def)
  have ms: "map snd (zip y_score y) = y" using len by (rule map_snd_zip)
  have "snd ` set xs = set (map snd (zip y_score y))" by (simp add: sx)
  then have sxs: "snd ` set xs = set y" by (simp only: ms)
  have ne: "xs \<noteq> []"
  proof
    assume "xs = []"
    then have "set y = {}" using sxs by simp
    then show False using pos by simp
  qed
  have "\<exists>x \<in> set xs. snd x" using sxs pos by (metis imageE)
  then have "filter snd xs \<noteq> []" by (simp add: filter_empty_conv)
  then have npos: "0 < length (filter snd xs)" by simp
  have "\<exists>x \<in> set xs. \<not> snd x" using sxs neg by (metis imageE)
  then have "filter (\<lambda>x. \<not> snd x) xs \<noteq> []" by (simp add: filter_empty_conv)
  then have nneg: "0 < length (filter (\<lambda>x. \<not> snd x) xs)" by simp
  have cp_ne: "cp \<noteq> []"
    and cp_last: "last cp = (length (filter (\<lambda>x. \<not> snd x) xs), length (filter snd xs))"
    using clf_points_last [OF ne, of 0 0] by (simp_all add: cp_def)
  have cp_sorted: "sorted (map fst cp)" and cp_pos: "\<forall>p \<in> set cp. 0 < fst p + snd p"
    using clf_points_sorted [of 0 0 xs] by (simp_all add: cp_def)
  have ps_ne: "ps \<noteq> []" using cp_ne by (simp add: ps_def)
  have ps_last: "last ps = (int (length (filter (\<lambda>x. \<not> snd x) xs)), int (length (filter snd xs)))"
    using cp_ne cp_last by (simp add: ps_def last_map)
  have ps_sorted: "sorted (map fst ps)"
  proof -
    have "map fst ps = map int (map fst cp)" by (simp add: ps_def case_prod_beta comp_def)
    then show ?thesis using cp_sorted by (simp add: sorted_map sorted_wrt_map comp_def)
  qed
  have ps_pos: "\<forall>p \<in> set ps. 0 \<le> fst p \<and> 0 < fst p + snd p"
    using cp_pos by (force simp: ps_def)
  have pts_sub: "subseq pts ps" by (simp add: pts_def drop_intermediate_subseq)
  have pts_ne: "pts \<noteq> []" and pts_last: "last pts = last ps"
    using drop_intermediate_last [OF ps_ne] by (simp_all add: pts_def)
  have pts_sorted: "sorted (map fst pts)"
    using pts_sub ps_sorted by (metis subseq_map subseq_sorted)
  have pts_pos: "\<forall>p \<in> set pts. 0 \<le> fst p \<and> 0 < fst p + snd p"
    using subseq_set [OF pts_sub] ps_pos by blast
  define pts0 where "pts0 = (0, 0) # pts"
  have pts0_eq: "(case pts of [] \<Rightarrow> [(0, 0)]
                 | p # _ \<Rightarrow> if fst p \<noteq> 0 \<or> snd p \<noteq> 0 then (0, 0) # pts else pts) = pts0"
    using pts_ne pts_pos by (cases pts) (auto simp: pts0_def)
  define N where "N = int (length (filter (\<lambda>x. \<not> snd x) xs))"
  define P where "P = int (length (filter snd xs))"
  have last0: "last pts0 = (N, P)" using pts_ne pts_last ps_last by (simp add: pts0_def N_def P_def)
  have N0: "0 < N" and P0: "0 < P" using nneg npos by (simp_all add: N_def P_def)
  define out where "out = map (\<lambda>(f, t). (real_of_int f / real_of_int N, real_of_int t / real_of_int P)) pts0"
  have rc: "roc_curve y y_score = Some out"
    using N0 P0
    by (simp add: roc_curve_def Let_def xs_def [symmetric] binary_clf_curve_def cp_def [symmetric]
        ps_def [symmetric] pts_def [symmetric] pts0_eq last0 out_def)
  have s0: "sorted (map fst pts0)" using pts_sorted pts_pos by (auto simp: pts0_def)
  have "map fst out = map (\<lambda>f. real_of_int f / real_of_int N) (map fst pts0)"
    by (simp add: out_def case_prod_beta comp_def)
  moreover have "sorted (map (\<lambda>f. real_of_int f / real_of_int N) (map fst pts0))"
    using s0 N0 by (intro sorted_map_mono) (simp_all add: divide_right_mono)
  ultimately have so: "sorted (map fst out)" by simp
  have lo: "2 \<le> length out" using pts_ne by (cases pts) (simp_all add: out_def pts0_def)
  have "metrics_auc out = Inr (trapz out)"
    using lo diffs_sorted [OF so] by (simp add: metrics_auc_def Let_def)
  with rc show ?thesis by blast
qed

section \<open>Evaluator: one class or two\<close>

lemma np_unique_nums:
  "list_all is_Num y \<Longrightarrow> np_unique y = Inr (map Num (sort (map num_of (unique y))))"
  by (simp add: np_unique_def sort_cells_def list_all_iff set_unique)

lemma binary_labels:
  assumes bin: "set y \<subseteq> {Num 0, Num 1}"
  shows "\<exists>labels. np_unique y = Inr labels \<and> length labels = card (set y)
           \<and> set labels \<subseteq> {Num 0, Num 1}
           \<and> (set y = {Num 0, Num 1} \<longrightarrow> labels = [Num 0, Num 1])"
proof -
  define u where "u = unique y"
  define labels where "labels = map Num (sort (map num_of u))"
  have su: "set u = set y" and du: "distinct u" by (simp_all add: u_def set_unique distinct_unique)
  have nums: "list_all is_Num y" using bin by (auto simp: list_all_iff)
  then have np: "np_unique y = Inr labels" by (simp add: np_unique_nums labels_def u_def)
  have len: "length labels = card (set y)"
    using distinct_card [OF du] by (simp add: labels_def su)
  have "map Num (map num_of u) = u" using nums su by (auto simp: list_all_iff intro: map_idI)
  then have "mset labels = mset u" unfolding labels_def by (metis mset_map mset_sort)
  then have sl: "set labels = set y" using su by (metis set_mset_mset)
  have two: "labels = [Num 0, Num 1]" if all: "set y = {Num 0, Num 1}"
  proof -
    have inj: "inj_on num_of (set u)" by (simp add: su all)
    have "distinct (sort (map num_of u))" using du inj by (simp add: distinct_map)
    moreover have "set (sort (map num_of u)) = {0, 1}" by (simp add: su all)
    moreover have "sorted (sort (map num_of u))" by simp
    ultimately have "sort (map num_of u) = [0, 1]"
      by (intro sorted_distinct_set_unique) simp_all
    then show ?thesis by (simp add: labels_def)
  qed
  show ?thesis using np len sl bin two by blast
qed

lemma roc_auc_score_binary:
  assumes bin: "set y \<subseteq> {Num 0, Num 1}" and ne: "y \<noteq> []"
  shows "(set y \<noteq> {Num 0, Num 1} \<longrightarrow> roc_auc_score y s = Inl (ValueError only_one_class))
       \<and> (set y = {Num 0, Num 1} \<and> length s = length y \<longrightarrow> (\<exists>a. roc_auc_score y s = Inr (Num a)))"
proof -
  from binary_labels [OF bin] obtain labels
    where np: "np_unique y = Inr labels" and len: "length labels = card (set y)"
      and sl: "set labels \<subseteq> {Num 0, Num 1}"
      and two: "set y = {Num 0, Num 1} \<longrightarrow> labels = [Num 0, Num 1]" by blast
  have nonan: "NaN \<notin> set y" using bin by auto
  have cont: "\<not> list_ex (\<lambda>c. is_Num c \<and> real_of_int \<lfloor>num_of c\<rfloor> \<noteq> num_of c) labels"
    using sl by (auto simp: list_ex_iff)
  have sety: "set y \<noteq> {}" using ne by simp
  have card_le: "card (set y) \<le> 2"
    using card_mono [OF _ bin] by (simp add: card_insert_if)
  have one: "roc_auc_score y s = Inl (ValueError only_one_class)" if "set y \<noteq> {Num 0, Num 1}"
  proof -
    have "card (set y) \<noteq> 2"
    proof
      assume "card (set y) = 2"
      moreover have "card {Num 0, Num 1} = 2" by simp
      ultimately have "set y = {Num 0, Num 1}" using bin by (metis card_subset_eq finite.emptyI finite.insertI)
      with that show False by simp
    qed
    then have "length labels \<noteq> 2" "\<not> 2 < length labels" using card_le len by simp_all
    then show ?thesis using ne nonan np cont by (simp add: roc_auc_score_def)
  qed
  have both: "\<exists>a. roc_auc_score y s = Inr (Num a)" if all: "set y = {Num 0, Num 1}" and ls: "length s = length y"
  proof -
    have lab: "labels = [Num 0, Num 1]" using two all by simp
    have "True \<in> set (map (\<lambda>c. c = Num 1) y)" "False \<in> set (map (\<lambda>c. c = Num 1) y)"
      using all by (auto simp: image_iff)
    moreover have "length s = length (map (\<lambda>c. c = Num 1) y)" using ls by simp
    ultimately obtain pts area where rc: "roc_curve (map (\<lambda>c. c = Num 1) y) s = Some pts"
      and ar: "metrics_auc pts = Inr area"
      using roc_curve_defined [of s "map (\<lambda>c. c = Num 1) y"] by blast
    have "roc_auc_score y s = Inr (Num area)"
      using ne nonan np cont ls rc ar by (simp add: roc_auc_score_def lab)
    then show ?thesis by blast
  qed
  show ?thesis using one both by blast
qed

section \<open>Evaluator: the two functions of the notebook\<close>

lemma pair_of_scores:
  assumes b1: "set y1 \<subseteq> {Num 0, Num 1}" and n1: "y1 \<noteq> []"
    and b2: "set y2 \<subseteq> {Num 0, Num 1}" and n2: "y2 \<noteq> []"
    and l1: "length s1 = length y1" and l2: "length s2 = length y2"
  shows "(and_then (roc_auc_score y1 s1) (\<lambda>a. and_then (roc_auc_score y2 s2) (\<lambda>b. Inr (a, b)))
            = Inl (ValueError only_one_class)
          \<longleftrightarrow> set y1 \<noteq> {Num 0, Num 1} \<or> set y2 \<noteq> {Num 0, Num 1})
       \<and> ((\<exists>a b. and_then (roc_auc_score y1 s1) (\<lambda>a. and_then (roc_auc_score y2 s2) (\<lambda>b. Inr (a, b)))
                    = Inr (Num a, Num b))
          \<longleftrightarrow> set y1 = {Num 0, Num 1} \<and> set y2 = {Num 0, Num 1})"
proof (cases "set y1 = {Num 0, Num 1}")
  case False
  then have "roc_auc_score y1 s1 = Inl (ValueError only_one_class)"
    using roc_auc_score_binary [OF b1 n1, of s1] by simp
  then show ?thesis using False by simp
next
  case True
  then obtain a where r1: "roc_auc_score y1 s1 = Inr (Num a)"
    using roc_auc_score_binary [OF b1 n1, of s1] l1 by blast
  show ?thesis
  proof (cases "set y2 = {Num 0, Num 1}")
    case False
    then have "roc_auc_score y2 s2 = Inl (ValueError only_one_class)"
      using roc_auc_score_binary [OF b2 n2, of s2] by simp
    then show ?thesis using True False r1 by simp
  next
    case both: True
    then obtain b where r2: "roc_auc_score y2 s2 = Inr (Num b)"
      using roc_auc_score_binary [OF b2 n2, of s2] l2 by blast
    show ?thesis using True both r1 r2 by simp
  qed
qed

text \<open>
  C6. The labels of both partitions being Label values (0 or 1), neither vector empty, and
  the model giving one score per label: the Evaluator (\<^verbatim>\<open>auc\<close> and \<^verbatim>\<open>auc2\<close> alike)
  fails with the one-class \<^verbatim>\<open>ValueError\<close> of \<^verbatim>\<open>roc_auc_score\<close>, the
  DegenerateLabelsError of the specification, exactly when the train or the test label
  vector has only one class, and returns a pair of AUC values exactly when both vectors
  have both classes.
\<close>

theorem evaluator_degenerate_labels:
  assumes "set (y_train g) \<subseteq> {Num 0, Num 1}" and "y_train g \<noteq> []"
    and "set (y_test g) \<subseteq> {Num 0, Num 1}" and "y_test g \<noteq> []"
    and "length (predict_proba m A) = length (y_train g)"
    and "length (predict_proba m B) = length (y_test g)"
    and "length (predict m A) = length (y_train g)"
    and "length (predict m B) = length (y_test g)"
  shows "(auc g m A B = Inl (ValueError only_one_class)
            \<longleftrightarrow> set (y_train g) \<noteq> {Num 0, Num 1} \<or> set (y_test g) \<noteq> {Num 0, Num 1})
       \<and> ((\<exists>a b. auc g m A B = Inr (Num a, Num b))
            \<longleftrightarrow> set (y_train g) = {Num 0, Num 1} \<and> set (y_test g) = {Num 0, Num 1})
       \<and> (auc2 g m A B = Inl (ValueError only_one_class)
            \<longleftrightarrow> set (y_train g) \<noteq> {Num 0, Num 1} \<or> set (y_test g) \<noteq> {Num 0, Num 1})
       \<and> ((\<exists>a b. auc2 g m A B = Inr (Num a, Num b))
            \<longleftrightarrow> set (y_train g) = {Num 0, Num 1} \<and> set (y_test g) = {Num 0, Num 1})"
proof -
  have p1: "length (map snd (predict_proba m A)) = length (y_train g)"
    and p2: "length (map snd (predict_proba m B)) = length (y_test g)"
    using assms(5,6) by simp_all
  note a1 = pair_of_scores [OF assms(1-4) p1 p2, folded auc_def]
  note a2 = pair_of_scores [OF assms(1-4) assms(7,8), folded auc2_def]
  show ?thesis using a1 a2 by (intro conjI) blast+
qed

lemma example_permutation_5: "example_permutation 10 5 = [4, 3, 2, 1, 0]"
  by code_simp

lemma example_split:
  "train_test_split example_permutation example_X example_y (1 / 4) 10
   = Inr \<lparr>X_train = example_X\<lparr>rows := [rows example_X ! 2, rows example_X ! 1, rows example_X ! 0]\<rparr>,
          X_test = example_X\<lparr>rows := [rows example_X ! 4, rows example_X ! 3]\<rparr>,
          y_train = [Num 1, Num 0, Num 0], y_test = [Num 0, Num 1]\<rparr>"
  by (simp add: train_test_split_def example_X_length example_y_length validate_quarter
      shuffle_split_def Let_def example_permutation_5 safe_indexing_def)
     (simp add: example_y_def)

lemma example_globals_eq:
  "example_globals
   = \<lparr>X_train = example_X\<lparr>rows := [rows example_X ! 2, rows example_X ! 1, rows example_X ! 0]\<rparr>,
      X_test = example_X\<lparr>rows := [rows example_X ! 4, rows example_X ! 3]\<rparr>,
      y_train = [Num 1, Num 0, Num 0], y_test = [Num 0, Num 1]\<rparr>"
  by (simp add: example_globals_def example_split)

lemma example_X_rows:
  "rows example_X = map (\<lambda>i. restrict_row [''AIRLINE'', ''DISTANCE''] (example_row i)) [0, 1, 2, 3, 4]"
  by (simp add: example_X_def upt_5)

lemma example_X_index:
  "fst (rows example_X ! 0) = 0" "fst (rows example_X ! Suc 0) = 1" "fst (rows example_X ! 2) = 2"
  "fst (rows example_X ! 3) = 3" "fst (rows example_X ! 4) = 4"
  by (simp_all add: example_X_rows restrict_row_def example_row_def)

lemma example_predictions:
  "predict example_model (X_train example_globals) = [1 / 5, 1 / 10, 0]"
  "predict example_model (X_test example_globals) = [2 / 5, 3 / 10]"
  "map snd (predict_proba example_model (X_train example_globals)) = [1 / 5, 1 / 10, 0]"
  "map snd (predict_proba example_model (X_test example_globals)) = [2 / 5, 3 / 10]"
  by (simp_all add: example_model_def example_globals_eq example_X_index)

lemma example_train_auc: "roc_auc_score [Num 1, Num 0, Num 0] [1 / 5, 1 / 10, 0] = Inr (Num 1)"
  by code_simp

lemma example_test_auc: "roc_auc_score [Num 0, Num 1] [2 / 5, 3 / 10] = Inr (Num 0)"
  by code_simp

lemma example_reordered_auc: "roc_auc_score [Num 1, Num 0, Num 0] [0, 1 / 10, 1 / 5] = Inr (Num 0)"
  by code_simp

lemma example_one_class: "roc_auc_score [Num 0, Num 0] [2 / 5, 3 / 10] = Inl (ValueError only_one_class)"
  by code_simp

lemma example_auc_pair:
  "auc example_globals example_model (X_train example_globals) (X_test example_globals)
     = Inr (Num 1, Num 0)"
  "auc2 example_globals example_model (X_train example_globals) (X_test example_globals)
     = Inr (Num 1, Num 0)"
  unfolding auc_def auc2_def example_predictions
  by (simp_all add: example_globals_eq example_train_auc example_test_auc)

text \<open>
  On the example split, with a model that scores a row by its index label: both label
  vectors have both classes and the pair of AUC values is \<open>(1, 0)\<close>; a label vector of
  one class makes \<^verbatim>\<open>roc_auc_score\<close> raise.
\<close>

theorem evaluator_degenerate_labels_witness:
  "set (y_train example_globals) \<subseteq> {Num 0, Num 1} \<and> y_train example_globals \<noteq> []
   \<and> set (y_test example_globals) \<subseteq> {Num 0, Num 1} \<and> y_test example_globals \<noteq> []
   \<and> length (predict_proba example_model (X_train example_globals)) = length (y_train example_globals)
   \<and> length (predict_proba example_model (X_test example_globals)) = length (y_test example_globals)
   \<and> length (predict example_model (X_train example_globals)) = length (y_train example_globals)
   \<and> length (predict example_model (X_test example_globals)) = length (y_test example_globals)
   \<and> ((auc example_globals example_model (X_train example_globals) (X_test example_globals)
          = Inl (ValueError only_one_class)
        \<longleftrightarrow> set (y_train example_globals) \<noteq> {Num 0, Num 1}
          \<or> set (y_test example_globals) \<noteq> {Num 0, Num 1})
     \<and> ((\<exists>a b. auc example_globals example_model (X_train example_globals) (X_test example_globals)
                  = Inr (Num a, Num b))
        \<longleftrightarrow> set (y_train example_globals) = {Num 0, Num 1}
          \<and> set (y_test example_globals) = {Num 0, Num 1})
     \<and> (auc2 example_globals example_model (X_train example_globals) (X_test example_globals)
          = Inl (ValueError only_one_class)
        \<longleftrightarrow> set (y_train example_globals) \<noteq> {Num 0, Num 1}
          \<or> set (y_test example_globals) \<noteq> {Num 0, Num 1})
     \<and> ((\<exists>a b. auc2 example_globals example_model (X_train example_globals) (X_test example_globals)
                  = Inr (Num a, Num b))
        \<longleftrightarrow> set (y_train example_globals) = {Num 0, Num 1}
          \<and> set (y_test example_globals) = {Num 0, Num 1}))
   \<and> auc example_globals example_model (X_train example_globals) (X_test example_globals)
       = Inr (Num 1, Num 0)
   \<and> roc_auc_score [Num 0, Num 0] [2 / 5, 3 / 10] = Inl (ValueError only_one_class)"
proof -
  have h1: "set (y_train example_globals) \<subseteq> {Num 0, Num 1}"
    and h2: "y_train example_globals \<noteq> []"
    and h3: "set (y_test example_globals) \<subseteq> {Num 0, Num 1}"
    and h4: "y_test example_globals \<noteq> []"
    by (simp_all add: example_globals_eq)
  have h5: "length (predict_proba example_model (X_train example_globals)) = length (y_train example_globals)"
    and h6: "length (predict_proba example_model (X_test example_globals)) = length (y_test example_globals)"
    and h7: "length (predict example_model (X_train example_globals)) = length (y_train example_globals)"
    and h8: "length (predict example_model (X_test example_globals)) = length (y_test example_globals)"
    by (simp_all add: example_globals_eq example_model_def)
  note t = evaluator_degenerate_labels [OF h1 h2 h3 h4 h5 h6 h7 h8]
  show ?thesis
    by (rule conjI [OF h1 conjI [OF h2 conjI [OF h3 conjI [OF h4 conjI [OF h5 conjI [OF h6
          conjI [OF h7 conjI [OF h8 conjI [OF t conjI [OF example_auc_pair(1) example_one_class]]]]]]]]]])
qed

text \<open>The rows of a split carry their labels.\<close>

lemma true_labels_nth:
  assumes d: "distinct (map fst (rows X))" and len: "length y = length (rows X)"
    and sub: "\<forall>i \<in> set ind. i < length (rows X)"
  shows "true_labels X y (X\<lparr>rows := map (\<lambda>i. rows X ! i) ind\<rparr>) = map (\<lambda>i. y ! i) ind"
proof -
  have "map_of (zip (map fst (rows X)) y) (fst (rows X ! i)) = Some (y ! i)"
    if "i < length (rows X)" for i
    using map_of_zip_nth [of "map fst (rows X)" y i] d len that by simp
  then show ?thesis using sub by (simp add: true_labels_def)
qed

lemma true_labels_split:
  assumes perm: "mset (permutation seed (length (rows X))) = mset [0..<length (rows X)]"
    and d: "distinct (map fst (rows X))"
    and run: "train_test_split permutation X y ts seed = Inr g"
  shows "true_labels X y (X_train g) = y_train g \<and> true_labels X y (X_test g) = y_test g"
proof -
  from train_test_split_D [OF run] obtain a b
    where len: "length y = length (rows X)"
      and val: "validate_shuffle_split (length (rows X)) ts = Inr (a, b)" by blast
  from train_test_split_run [where permutation = permutation and seed = seed, OF perm len val] run
  obtain train test
    where g: "g = \<lparr>X_train = X\<lparr>rows := map (\<lambda>i. rows X ! i) train\<rparr>,
               X_test = X\<lparr>rows := map (\<lambda>i. rows X ! i) test\<rparr>,
               y_train = map (\<lambda>i. y ! i) train, y_test = map (\<lambda>i. y ! i) test\<rparr>"
      and app: "test @ train = permutation seed (length (rows X))" by auto
  have "mset (test @ train) = mset [0..<length (rows X)]" using perm app by simp
  then have "set (test @ train) = {0..<length (rows X)}" by (rule perm_set)
  then have s1: "\<forall>i \<in> set train. i < length (rows X)" and s2: "\<forall>i \<in> set test. i < length (rows X)"
    by auto
  show ?thesis
    using true_labels_nth [OF d len s1] true_labels_nth [OF d len s2] by (simp add: g)
qed

lemma example_X_index_list: "map fst (rows example_X) = [0, 1, 2, 3, 4]"
  by (simp add: example_X_rows restrict_row_def example_row_def)

lemma example_true_labels:
  "true_labels example_X example_y example_reordered_train = [Num 0, Num 0, Num 1]"
  "true_labels example_X example_y example_other_train = [Num 1, Num 0, Num 0]"
  "true_labels example_X example_y (X_test example_globals) = [Num 0, Num 1]"
  by (simp_all add: true_labels_def example_X_index_list example_y_def example_reordered_train_def
      example_other_train_def example_globals_eq example_X_index)

lemma example_other_predictions:
  "map snd (predict_proba example_model example_reordered_train) = [0, 1 / 10, 1 / 5]"
  "predict example_model example_reordered_train = [0, 1 / 10, 1 / 5]"
  "map snd (predict_proba example_model example_other_train) = [1 / 5, 2 / 5, 1 / 10]"
  "predict example_model example_other_train = [1 / 5, 2 / 5, 1 / 10]"
  by (simp_all add: example_model_def example_reordered_train_def example_other_train_def
      example_X_index)

lemma example_reordered_true_auc: "roc_auc_score [Num 0, Num 0, Num 1] [0, 1 / 10, 1 / 5] = Inr (Num 1)"
  by code_simp

lemma example_other_auc: "roc_auc_score [Num 1, Num 0, Num 0] [1 / 5, 2 / 5, 1 / 10] = Inr (Num (1 / 2))"
  by code_simp

lemma example_reordered_pair:
  "auc example_globals example_model example_reordered_train (X_test example_globals)
     = Inr (Num 0, Num 0)"
  "auc2 example_globals example_model example_reordered_train (X_test example_globals)
     = Inr (Num 0, Num 0)"
  "auc_true_labels example_X example_y example_model example_reordered_train (X_test example_globals)
     = Inr (Num 1, Num 0)"
  "auc2_true_labels example_X example_y example_model example_reordered_train (X_test example_globals)
     = Inr (Num 1, Num 0)"
  unfolding auc_def auc2_def auc_true_labels_def auc2_true_labels_def example_predictions
    example_other_predictions example_true_labels
  by (simp_all add: example_globals_eq example_reordered_auc example_test_auc
      example_reordered_true_auc)

lemma example_other_pair:
  "auc example_globals example_model example_other_train (X_test example_globals)
     = Inr (Num (1 / 2), Num 0)"
  "auc2 example_globals example_model example_other_train (X_test example_globals)
     = Inr (Num (1 / 2), Num 0)"
  "auc_true_labels example_X example_y example_model example_other_train (X_test example_globals)
     = Inr (Num (1 / 2), Num 0)"
  "auc2_true_labels example_X example_y example_model example_other_train (X_test example_globals)
     = Inr (Num (1 / 2), Num 0)"
  unfolding auc_def auc2_def auc_true_labels_def auc2_true_labels_def example_predictions
    example_other_predictions example_true_labels
  by (simp_all add: example_globals_eq example_other_auc example_test_auc)

lemma example_other_train_differs: "example_other_train \<noteq> X_train example_globals"
proof -
  have "fst (rows example_X ! 4) \<noteq> fst (rows example_X ! Suc 0)"
    by (simp add: example_X_index)
  then have ne: "rows example_X ! 4 \<noteq> rows example_X ! Suc 0" by auto
  show ?thesis
  proof
    assume "example_other_train = X_train example_globals"
    then have "rows example_other_train = rows (X_train example_globals)" by simp
    then show False using ne by (simp add: example_other_train_def example_globals_eq)
  qed
qed

lemma example_split_globals:
  "train_test_split example_permutation example_X example_y (1 / 4) 10 = Inr example_globals"
  by (simp add: example_globals_eq example_split)

lemma example_X_distinct: "distinct (map fst (rows example_X))"
  by (simp add: example_X_index_list)


lemma and_then_pair:
  "(and_then r1 (\<lambda>x. and_then r2 (\<lambda>y. Inr (x, y))) = Inr (a, b) \<longleftrightarrow> r1 = Inr a \<and> r2 = Inr b)
   \<and> (and_then r1 (\<lambda>x. and_then r2 (\<lambda>y. Inr (x, y))) = Inl e
        \<longleftrightarrow> r1 = Inl e \<or> (\<exists>a'. r1 = Inr a' \<and> r2 = Inl e))"
  for r1 r2 :: "error + cell"
  by (cases r1; cases r2) simp_all

text \<open>
  C9, as the code has it. For every model and all feature matrices \<open>A\<close> and \<open>B\<close>,
  \<^verbatim>\<open>auc\<close> and \<^verbatim>\<open>auc2\<close> return the score of the model's predictions on \<open>A\<close> against
  the global \<^verbatim>\<open>y_train\<close> and of its predictions on \<open>B\<close> against the global
  \<^verbatim>\<open>y_test\<close>, the first exception ending the call; the global \<^verbatim>\<open>X_train\<close> and
  \<^verbatim>\<open>X_test\<close> play no part. The labels are not parameters. Whenever the labels of the
  rows of \<open>A\<close> are the global \<^verbatim>\<open>y_train\<close> and those of the rows of \<open>B\<close> are the global
  \<^verbatim>\<open>y_test\<close>, the result is the AUC of \<open>A\<close> and \<open>B\<close> against the labels of their own
  rows; this is so for the \<^verbatim>\<open>X_train\<close> and \<^verbatim>\<open>X_test\<close> of the split the globals come
  from, the index labels of the split frame being distinct. For other matrices the result
  can differ from the AUC against the labels of their rows: there is a split, a model and a
  matrix for which both functions differ from it.
\<close>

theorem evaluator_uses_global_labels:
  "(auc g m A B = Inr (a, b)
      \<longleftrightarrow> roc_auc_score (y_train g) (map snd (predict_proba m A)) = Inr a
        \<and> roc_auc_score (y_test g) (map snd (predict_proba m B)) = Inr b)
   \<and> (auc2 g m A B = Inr (a, b)
      \<longleftrightarrow> roc_auc_score (y_train g) (predict m A) = Inr a
        \<and> roc_auc_score (y_test g) (predict m B) = Inr b)
   \<and> (auc g m A B = Inl e
      \<longleftrightarrow> roc_auc_score (y_train g) (map snd (predict_proba m A)) = Inl e
        \<or> (\<exists>a'. roc_auc_score (y_train g) (map snd (predict_proba m A)) = Inr a'
              \<and> roc_auc_score (y_test g) (map snd (predict_proba m B)) = Inl e))
   \<and> (auc2 g m A B = Inl e
      \<longleftrightarrow> roc_auc_score (y_train g) (predict m A) = Inl e
        \<or> (\<exists>a'. roc_auc_score (y_train g) (predict m A) = Inr a'
              \<and> roc_auc_score (y_test g) (predict m B) = Inl e))
   \<and> auc (g\<lparr>X_train := X1, X_test := X2\<rparr>) m A B = auc g m A B
   \<and> auc2 (g\<lparr>X_train := X1, X_test := X2\<rparr>) m A B = auc2 g m A B
   \<and> (true_labels X y A = y_train g \<and> true_labels X y B = y_test g
        \<longrightarrow> auc g m A B = auc_true_labels X y m A B
          \<and> auc2 g m A B = auc2_true_labels X y m A B)
   \<and> (mset (permutation seed (length (rows X))) = mset [0..<length (rows X)]
        \<and> distinct (map fst (rows X))
        \<and> train_test_split permutation X y ts seed = Inr g
        \<longrightarrow> true_labels X y (X_train g) = y_train g
          \<and> true_labels X y (X_test g) = y_test g
          \<and> auc g m (X_train g) (X_test g) = auc_true_labels X y m (X_train g) (X_test g)
          \<and> auc2 g m (X_train g) (X_test g) = auc2_true_labels X y m (X_train g) (X_test g))
   \<and> (\<exists>permutation' seed' X' y' g' m' A'.
        mset (permutation' seed' (length (rows X'))) = mset [0..<length (rows X')]
        \<and> distinct (map fst (rows X'))
        \<and> train_test_split permutation' X' y' (1 / 4) seed' = Inr g'
        \<and> auc g' m' A' (X_test g') \<noteq> auc_true_labels X' y' m' A' (X_test g')
        \<and> auc2 g' m' A' (X_test g') \<noteq> auc2_true_labels X' y' m' A' (X_test g'))"
proof -
  have c1234: "(auc g m A B = Inr (a, b)
      \<longleftrightarrow> roc_auc_score (y_train g) (map snd (predict_proba m A)) = Inr a
        \<and> roc_auc_score (y_test g) (map snd (predict_proba m B)) = Inr b)
   \<and> (auc2 g m A B = Inr (a, b)
      \<longleftrightarrow> roc_auc_score (y_train g) (predict m A) = Inr a
        \<and> roc_auc_score (y_test g) (predict m B) = Inr b)
   \<and> (auc g m A B = Inl e
      \<longleftrightarrow> roc_auc_score (y_train g) (map snd (predict_proba m A)) = Inl e
        \<or> (\<exists>a'. roc_auc_score (y_train g) (map snd (predict_proba m A)) = Inr a'
              \<and> roc_auc_score (y_test g) (map snd (predict_proba m B)) = Inl e))
   \<and> (auc2 g m A B = Inl e
      \<longleftrightarrow> roc_auc_score (y_train g) (predict m A) = Inl e
        \<or> (\<exists>a'. roc_auc_score (y_train g) (predict m A) = Inr a'
              \<and> roc_auc_score (y_test g) (predict m B) = Inl e))"
    using and_then_pair [of "roc_auc_score (y_train g) (map snd (predict_proba m A))"
                   "roc_auc_score (y_test g) (map snd (predict_proba m B))" a b e]
          and_then_pair [of "roc_auc_score (y_train g) (predict m A)"
                   "roc_auc_score (y_test g) (predict m B)" a b e]
    by (simp add: auc_def auc2_def)
  have c5: "auc (g\<lparr>X_train := X1, X_test := X2\<rparr>) m A B = auc g m A B"
    and c6: "auc2 (g\<lparr>X_train := X1, X_test := X2\<rparr>) m A B = auc2 g m A B"
    by (simp_all add: auc_def auc2_def)
  have own: "auc g m A' B' = auc_true_labels X y m A' B'
          \<and> auc2 g m A' B' = auc2_true_labels X y m A' B'"
    if "true_labels X y A' = y_train g" "true_labels X y B' = y_test g" for A' B'
    using that by (simp add: auc_def auc2_def auc_true_labels_def auc2_true_labels_def)
  have c7: "true_labels X y A = y_train g \<and> true_labels X y B = y_test g
        \<longrightarrow> auc g m A B = auc_true_labels X y m A B
          \<and> auc2 g m A B = auc2_true_labels X y m A B"
    using own by blast
  have c8: "mset (permutation seed (length (rows X))) = mset [0..<length (rows X)]
        \<and> distinct (map fst (rows X))
        \<and> train_test_split permutation X y ts seed = Inr g
        \<longrightarrow> true_labels X y (X_train g) = y_train g
          \<and> true_labels X y (X_test g) = y_test g
          \<and> auc g m (X_train g) (X_test g) = auc_true_labels X y m (X_train g) (X_test g)
          \<and> auc2 g m (X_train g) (X_test g) = auc2_true_labels X y m (X_train g) (X_test g)"
  proof
    assume h: "mset (permutation seed (length (rows X))) = mset [0..<length (rows X)]
        \<and> distinct (map fst (rows X))
        \<and> train_test_split permutation X y ts seed = Inr g"
    then have tl: "true_labels X y (X_train g) = y_train g \<and> true_labels X y (X_test g) = y_test g"
      using true_labels_split [where permutation = permutation and seed = seed and X = X and y = y
          and ts = ts and g = g] by blast
    then show "true_labels X y (X_train g) = y_train g
          \<and> true_labels X y (X_test g) = y_test g
          \<and> auc g m (X_train g) (X_test g) = auc_true_labels X y m (X_train g) (X_test g)
          \<and> auc2 g m (X_train g) (X_test g) = auc2_true_labels X y m (X_train g) (X_test g)"
      using own [of "X_train g" "X_test g"] by blast
  qed
  have c9: "\<exists>permutation' seed' X' y' g' m' A'.
        mset (permutation' seed' (length (rows X'))) = mset [0..<length (rows X')]
        \<and> distinct (map fst (rows X'))
        \<and> train_test_split permutation' X' y' (1 / 4) seed' = Inr g'
        \<and> auc g' m' A' (X_test g') \<noteq> auc_true_labels X' y' m' A' (X_test g')
        \<and> auc2 g' m' A' (X_test g') \<noteq> auc2_true_labels X' y' m' A' (X_test g')"
    by (intro exI [of _ example_permutation] exI [of _ 10] exI [of _ example_X]
          exI [of _ example_y] exI [of _ example_globals] exI [of _ example_model]
          exI [of _ example_reordered_train])
       (simp add: example_permutation_perm example_X_distinct example_split_globals
          example_reordered_pair)
  show ?thesis
    by (rule conjI [OF c1234 [THEN conjunct1] conjI [OF c1234 [THEN conjunct2, THEN conjunct1]
          conjI [OF c1234 [THEN conjunct2, THEN conjunct2, THEN conjunct1]
          conjI [OF c1234 [THEN conjunct2, THEN conjunct2, THEN conjunct2]
          conjI [OF c5 conjI [OF c6 conjI [OF c7 conjI [OF c8 c9]]]]]]]])
qed

text \<open>
  On the example split, with a model that scores a row by its index label: for the
  \<^verbatim>\<open>X_train\<close> and \<^verbatim>\<open>X_test\<close> of the split the result is the AUC against the labels
  of their rows, \<open>(1, 0)\<close>; handing \<^verbatim>\<open>auc\<close> the rows 0, 1, 2 in this order gives
  \<open>(0, 0)\<close>, because the scores are still compared with the global \<^verbatim>\<open>y_train\<close>, while
  the AUC against the labels of these rows is \<open>(1, 0)\<close>.
\<close>

theorem evaluator_uses_global_labels_witness:
  "mset (example_permutation 10 (length (rows example_X))) = mset [0..<length (rows example_X)]
   \<and> distinct (map fst (rows example_X))
   \<and> train_test_split example_permutation example_X example_y (1 / 4) 10 = Inr example_globals
   \<and> true_labels example_X example_y (X_train example_globals) = y_train example_globals
   \<and> true_labels example_X example_y (X_test example_globals) = y_test example_globals
   \<and> auc example_globals example_model (X_train example_globals) (X_test example_globals)
       = auc_true_labels example_X example_y example_model
           (X_train example_globals) (X_test example_globals)
   \<and> auc2 example_globals example_model (X_train example_globals) (X_test example_globals)
       = auc2_true_labels example_X example_y example_model
           (X_train example_globals) (X_test example_globals)
   \<and> ((auc example_globals example_model (X_train example_globals) (X_test example_globals)
        = Inr (Num 1, Num 0))
     = (roc_auc_score (y_train example_globals)
          (map snd (predict_proba example_model (X_train example_globals))) = Inr (Num 1)
        \<and> roc_auc_score (y_test example_globals)
          (map snd (predict_proba example_model (X_test example_globals))) = Inr (Num 0)))
   \<and> auc example_globals example_model (X_train example_globals) (X_test example_globals)
       = Inr (Num 1, Num 0)
   \<and> auc example_globals example_model example_reordered_train (X_test example_globals)
       = Inr (Num 0, Num 0)
   \<and> auc_true_labels example_X example_y example_model example_reordered_train
        (X_test example_globals)
       = Inr (Num 1, Num 0)"
proof -
  note t = evaluator_uses_global_labels [of example_globals example_model
        "X_train example_globals" "X_test example_globals" "Num 1" "Num 0" _ _ _
        example_X example_y example_permutation 10 "1 / 4"]
  have h1: "mset (example_permutation 10 (length (rows example_X))) = mset [0..<length (rows example_X)]"
    by (rule example_permutation_perm)
  note h2 = example_X_distinct
  note h3 = example_split_globals
  note split = t [THEN conjunct2, THEN conjunct2, THEN conjunct2, THEN conjunct2, THEN conjunct2,
      THEN conjunct2, THEN conjunct2, THEN conjunct1, THEN mp, OF conjI [OF h1 conjI [OF h2 h3]]]
  note own = t [THEN conjunct2, THEN conjunct2, THEN conjunct2, THEN conjunct2, THEN conjunct2,
      THEN conjunct2, THEN conjunct1, THEN mp,
      OF conjI [OF split [THEN conjunct1] split [THEN conjunct2, THEN conjunct1]]]
  show ?thesis
    by (rule conjI [OF h1 conjI [OF h2 conjI [OF h3 conjI [OF split [THEN conjunct1]
          conjI [OF split [THEN conjunct2, THEN conjunct1] conjI [OF own [THEN conjunct1]
          conjI [OF own [THEN conjunct2] conjI [OF t [THEN conjunct1]
          conjI [OF example_auc_pair(1) conjI [OF example_reordered_pair(1)
          example_reordered_pair(3)]]]]]]]]]])
qed

text \<open>
  The claim as the specification states it, the result being correct only when \<open>A\<close> and
  \<open>B\<close> are exactly the global \<^verbatim>\<open>X_train\<close> and \<^verbatim>\<open>X_test\<close>, fails on the example
  split: the frame of the rows 2, 4, 1 is not \<^verbatim>\<open>X_train\<close> (the rows 2, 1, 0), the labels
  of its rows are the global \<^verbatim>\<open>y_train\<close>, and both functions return the AUC against
  the labels of its rows.
\<close>

theorem evaluator_uses_global_labels_counterexample:
  "example_other_train \<noteq> X_train example_globals
   \<and> true_labels example_X example_y example_other_train = y_train example_globals
   \<and> auc example_globals example_model example_other_train (X_test example_globals)
       = Inr (Num (1 / 2), Num 0)
   \<and> auc_true_labels example_X example_y example_model example_other_train (X_test example_globals)
       = Inr (Num (1 / 2), Num 0)
   \<and> auc2 example_globals example_model example_other_train (X_test example_globals)
       = Inr (Num (1 / 2), Num 0)
   \<and> auc2_true_labels example_X example_y example_model example_other_train (X_test example_globals)
       = Inr (Num (1 / 2), Num 0)"
proof -
  have tl: "true_labels example_X example_y example_other_train = y_train example_globals"
    by (simp add: example_true_labels example_globals_eq)
  show ?thesis
    by (rule conjI [OF example_other_train_differs conjI [OF tl conjI [OF example_other_pair(1)
          conjI [OF example_other_pair(3) conjI [OF example_other_pair(2) example_other_pair(4)]]]]])
qed

section \<open>Encoded fields against declared categorical fields\<close>

text \<open>
  C10. The fields the Encoder converts and the fields declared categorical to the
  second trainer are different sets: \<^verbatim>\<open>FLIGHT_NUMBER\<close> is encoded but not declared,
  and \<^verbatim>\<open>MONTH\<close>, \<^verbatim>\<open>DAY\<close>, \<^verbatim>\<open>DAY_OF_WEEK\<close> are declared but not encoded.
\<close>

theorem encoded_fields_differ_from_declared:
  "set cols \<noteq> set cate_features_name
   \<and> set cols - set cate_features_name = {''FLIGHT_NUMBER''}
   \<and> set cate_features_name - set cols = {''MONTH'', ''DAY'', ''DAY_OF_WEEK''}"
proof -
  have enc: "set cols - set cate_features_name = {''FLIGHT_NUMBER''}"
    by (simp add: cols_def cate_features_name_def insert_Diff_if)
  have dec: "set cate_features_name - set cols = {''MONTH'', ''DAY'', ''DAY_OF_WEEK''}"
    by (simp add: cols_def cate_features_name_def insert_Diff_if)
  have ne: "set cols \<noteq> set cate_features_name"
  proof
    assume "set cols = set cate_features_name"
    then have "set cols - set cate_features_name = {}" by simp
    with enc show False by simp
  qed
  show ?thesis by (rule conjI [OF ne conjI [OF enc dec]])
qed

end
